theory Spec2Isabelle
  imports Complex_Main "HOL-Library.Stream"
begin

section \<open>The Jitterbug task domain (jitterbug\_dmc/jitterbug.py)\<close>

text \<open>
  A shallow embedding of the task, observation and reward logic of the Jitterbug domain.
  Python floats are idealised as HOL reals throughout: rounding, NaN, infinities and signed
  zeros are outside the model. Vectors of a fixed size that the physics engine hands out
  are tuples of that size, so that an index the source uses is always in range.
\<close>

subsection \<open>Vectors, quaternions and the library functions the source calls\<close>

type_synonym vec2 = "real \<times> real"
type_synonym vec3 = "real \<times> real \<times> real"
type_synonym quat = "real \<times> real \<times> real \<times> real"
type_synonym mat33 = "vec3 \<times> vec3 \<times> vec3"

text \<open>
  \<^verbatim>\<open>mjlib.mju_quat2Mat\<close> is MuJoCo's library routine, not code of this repository: it turns
  a quaternion \<open>(w, x, y, z)\<close> into the row-major 3x3 rotation matrix. Only the entries
  \<open>mat[0,0]\<close> and \<open>mat[1,0]\<close> are read by the source.
\<close>

definition mju_quat2Mat :: "quat \<Rightarrow> mat33" where
  "mju_quat2Mat q =
     (case q of (w, x, y, z) \<Rightarrow>
        ((w*w + x*x - y*y - z*z, 2 * (x*y - w*z), 2 * (x*z + w*y)),
         (2 * (x*y + w*z), w*w - x*x + y*y - z*z, 2 * (y*z - w*x)),
         (2 * (x*z - w*y), 2 * (y*z + w*x), w*w - x*x - y*y + z*z)))"

definition mat_00 :: "mat33 \<Rightarrow> real" where
  "mat_00 m = (case m of ((a, _, _), _, _) \<Rightarrow> a)"

definition mat_10 :: "mat33 \<Rightarrow> real" where
  "mat_10 m = (case m of (_, (a, _, _), _) \<Rightarrow> a)"

text \<open>\<^verbatim>\<open>np.arctan2(y, x)\<close> on reals: the angle of the point \<open>(x, y)\<close>, in \<open>(-\<pi>, \<pi>]\<close>.\<close>

definition arctan2 :: "real \<Rightarrow> real \<Rightarrow> real" where
  "arctan2 y x =
     (if 0 < x then arctan (y / x)
      else if x < 0 then (if 0 \<le> y then arctan (y / x) + pi else arctan (y / x) - pi)
      else if 0 < y then pi / 2
      else if y < 0 then - (pi / 2)
      else 0)"

text \<open>\<^verbatim>\<open>np.linalg.norm\<close> of a 3-vector.\<close>

definition linalg_norm :: "vec3 \<Rightarrow> real" where
  "linalg_norm v = (case v of (x, y, z) \<Rightarrow> sqrt (x*x + y*y + z*z))"

definition vec3_sub :: "vec3 \<Rightarrow> vec3 \<Rightarrow> vec3" where
  "vec3_sub a b = (case (a, b) of ((ax, ay, az), (bx, by, bz)) \<Rightarrow> (ax - bx, ay - by, az - bz))"

definition vec3_list :: "vec3 \<Rightarrow> real list" where
  "vec3_list v = (case v of (x, y, z) \<Rightarrow> [x, y, z])"

definition quat_list :: "quat \<Rightarrow> real list" where
  "quat_list q = (case q of (w, x, y, z) \<Rightarrow> [w, x, y, z])"

definition vec2_list :: "vec2 \<Rightarrow> real list" where
  "vec2_list v = (case v of (x, y) \<Rightarrow> [x, y])"

text \<open>The \<^verbatim>\<open>@\<close> of two 2-vectors.\<close>

definition matmul2 :: "vec2 \<Rightarrow> vec2 \<Rightarrow> real" where
  "matmul2 a b = (case (a, b) of ((ax, ay), (bx, by)) \<Rightarrow> ax * bx + ay * by)"

subsection \<open>Random number generators\<close>

text \<open>
  A \<^verbatim>\<open>numpy.random.RandomState\<close> is determined by the unit samples it will hand out, so a
  generator state is the stream of those samples; two generators seeded identically are
  the same stream. \<^verbatim>\<open>uniform(low, high)\<close> takes one unit sample \<open>u\<close>, returns
  \<open>low + (high - low) * u\<close> and advances the generator.
\<close>

type_synonym rng = "real stream"

definition uniform :: "real \<Rightarrow> real \<Rightarrow> rng \<Rightarrow> real \<times> rng" where
  "uniform low high g = (low + (high - low) * shd g, stl g)"

subsection \<open>Physics: the state accessor\<close>

text \<open>
  The named reads and writes of the simulation state the source performs. The fields
  \<open>data_*\<close> are \<^verbatim>\<open>physics.named.data\<close> entries (read only), the fields \<open>model_*\<close> are the
  \<^verbatim>\<open>physics.named.model\<close> entries written at reset time.
\<close>

record physics =
  data_qpos_root :: "vec3 \<times> quat"
  data_qvel_root :: "vec3 \<times> vec3"
  data_qpos_jointMass :: "real list"
  data_qvel_jointMass :: "real list"
  data_geom_xpos_target :: vec3
  data_xquat_target :: quat
  data_xmat_jitterbug_zz :: real
  model_geom_rgba_targetPointer :: "real \<times> real \<times> real \<times> real"
  model_body_quat_target :: quat
  model_body_pos_target :: vec3

definition jitterbug_position :: "physics \<Rightarrow> vec3 \<times> quat" where
  "jitterbug_position p = data_qpos_root p"

definition jitterbug_position_xyz :: "physics \<Rightarrow> vec3" where
  "jitterbug_position_xyz p = fst (jitterbug_position p)"

definition jitterbug_position_quat :: "physics \<Rightarrow> quat" where
  "jitterbug_position_quat p = snd (jitterbug_position p)"

definition jitterbug_direction_yaw :: "physics \<Rightarrow> real" where
  "jitterbug_direction_yaw p =
     (let mat = mju_quat2Mat (jitterbug_position_quat p);
          yaw = arctan2 (mat_10 mat) (mat_00 mat)
      in yaw - pi / 2)"

definition jitterbug_velocity :: "physics \<Rightarrow> vec3 \<times> vec3" where
  "jitterbug_velocity p = data_qvel_root p"

definition jitterbug_velocity_xyz :: "physics \<Rightarrow> vec3" where
  "jitterbug_velocity_xyz p = fst (jitterbug_velocity p)"

definition jitterbug_velocity_rpy :: "physics \<Rightarrow> vec3" where
  "jitterbug_velocity_rpy p = snd (jitterbug_velocity p)"

definition motor_position :: "physics \<Rightarrow> real list" where
  "motor_position p = data_qpos_jointMass p"

definition motor_velocity :: "physics \<Rightarrow> real list" where
  "motor_velocity p = data_qvel_jointMass p"

definition target_position_xyz :: "physics \<Rightarrow> vec3" where
  "target_position_xyz p = data_geom_xpos_target p"

definition target_position_quat :: "physics \<Rightarrow> quat" where
  "target_position_quat p = data_xquat_target p"

definition target_direction_yaw :: "physics \<Rightarrow> real" where
  "target_direction_yaw p =
     (let mat = mju_quat2Mat (target_position_quat p);
          yaw = arctan2 (mat_10 mat) (mat_00 mat)
      in yaw)"

definition target_direction_vec2 :: "physics \<Rightarrow> vec2" where
  "target_direction_vec2 p =
     (let target_yaw = target_direction_yaw p in (cos target_yaw, sin target_yaw))"

definition vec3_jitterbug_to_target :: "physics \<Rightarrow> vec3" where
  "vec3_jitterbug_to_target p = vec3_sub (target_position_xyz p) (jitterbug_position_xyz p)"

text \<open>
  The two \<^verbatim>\<open>while\<close> loops of \<^verbatim>\<open>angle_jitterbug_to_target\<close>, one recursive function each:
  \<^verbatim>\<open>while angle > np.pi: angle -= 2*np.pi\<close> and
  \<^verbatim>\<open>while angle <= -np.pi: angle += 2*np.pi\<close>.
\<close>

function while_gt_pi :: "real \<Rightarrow> real" where
  "while_gt_pi angle = (if angle > pi then while_gt_pi (angle - 2 * pi) else angle)"
  by pat_completeness auto
termination
proof (relation "measure (\<lambda>a. nat \<lceil>(a - pi) / (2 * pi)\<rceil>)")
  show "wf (measure (\<lambda>a. nat \<lceil>(a - pi) / (2 * pi)\<rceil>))" by simp
next
  fix angle :: real
  assume gt: "pi < angle"
  have "(angle - 2 * pi - pi) / (2 * pi) = (angle - pi) / (2 * pi) - 1"
    by (simp add: field_simps)
  then have step: "\<lceil>(angle - 2 * pi - pi) / (2 * pi)\<rceil> = \<lceil>(angle - pi) / (2 * pi)\<rceil> - 1"
    by simp
  from gt have "0 < (angle - pi) / (2 * pi)" by simp
  then have "0 < \<lceil>(angle - pi) / (2 * pi)\<rceil>" by linarith
  with step show "(angle - 2 * pi, angle) \<in> measure (\<lambda>a. nat \<lceil>(a - pi) / (2 * pi)\<rceil>)"
    by simp
qed

function while_le_neg_pi :: "real \<Rightarrow> real" where
  "while_le_neg_pi angle = (if angle \<le> - pi then while_le_neg_pi (angle + 2 * pi) else angle)"
  by pat_completeness auto
termination
proof (relation "measure (\<lambda>a. nat (\<lfloor>(- pi - a) / (2 * pi)\<rfloor> + 1))")
  show "wf (measure (\<lambda>a. nat (\<lfloor>(- pi - a) / (2 * pi)\<rfloor> + 1)))" by simp
next
  fix angle :: real
  assume le: "angle \<le> - pi"
  have "(- pi - (angle + 2 * pi)) / (2 * pi) = (- pi - angle) / (2 * pi) - 1"
    by (simp add: field_simps)
  then have step: "\<lfloor>(- pi - (angle + 2 * pi)) / (2 * pi)\<rfloor> = \<lfloor>(- pi - angle) / (2 * pi)\<rfloor> - 1"
    by simp
  from le have "0 \<le> (- pi - angle) / (2 * pi)" by simp
  then have "0 \<le> \<lfloor>(- pi - angle) / (2 * pi)\<rfloor>" by simp
  with step show "(angle + 2 * pi, angle) \<in> measure (\<lambda>a. nat (\<lfloor>(- pi - a) / (2 * pi)\<rfloor> + 1))"
    by simp
qed

text \<open>The loop equations are unfolded by hand, one iteration at a time.\<close>

declare while_gt_pi.simps [simp del]
declare while_le_neg_pi.simps [simp del]

definition angle_jitterbug_to_target :: "physics \<Rightarrow> real" where
  "angle_jitterbug_to_target p =
     (let angle = target_direction_yaw p - jitterbug_direction_yaw p;
          angle = while_gt_pi angle;
          angle = while_le_neg_pi angle
      in angle)"

definition vec2_direction_to_target :: "physics \<Rightarrow> vec2" where
  "vec2_direction_to_target p =
     (let target_yaw = angle_jitterbug_to_target p in (cos target_yaw, sin target_yaw))"

subsection \<open>The task registry and the constructor\<close>

text \<open>
  \<^verbatim>\<open>Jitterbug.__init__\<close> finds the task names by reflection: the functions of the module, in
  the name order of \<^verbatim>\<open>inspect.getmembers\<close>, that are registered in \<^verbatim>\<open>SUITE\<close>. The module
  defines seven functions; five of them carry the \<^verbatim>\<open>@SUITE.add\<close> decorator.
\<close>

definition module_functions :: "string list" where
  "module_functions =
     [''demo'', ''face_direction'', ''get_model_and_assets'', ''move_from_origin'',
      ''move_in_direction'', ''move_to_pose'', ''move_to_position'']"

definition SUITE_tasks :: "string list" where
  "SUITE_tasks =
     [''move_from_origin'', ''face_direction'', ''move_in_direction'', ''move_to_position'',
      ''move_to_pose'']"

text \<open>
  The exceptions the class raises. \<open>AssertionError\<close> carries the two arguments of the
  message \<^verbatim>\<open>"Invalid task {}, options are {}"\<close>, \<open>ValueError\<close> the argument of
  \<^verbatim>\<open>"Invalid task {}"\<close>.
\<close>

datatype error = AssertionError string "string list" | ValueError string

record jitterbug =
  task_names :: "string list"
  task :: string
  random :: rng

text \<open>
  The constructor. \<^verbatim>\<open>base.Task.__init__\<close> stores the generator it is given; the argument
  here is that generator. The \<^verbatim>\<open>assert\<close> is modelled as executed (Python without \<^verbatim>\<open>-O\<close>).
\<close>

definition Jitterbug_init :: "rng \<Rightarrow> string \<Rightarrow> error + jitterbug" where
  "Jitterbug_init rnd tsk =
     (let names = filter (\<lambda>n. n \<in> set SUITE_tasks) module_functions
      in if tsk \<in> set names
         then Inr \<lparr>task_names = names, task = tsk, random = rnd\<rparr>
         else Inl (AssertionError tsk names))"

subsection \<open>Episode initialisation\<close>

definition set_rgba_alpha :: "real \<Rightarrow> real \<times> real \<times> real \<times> real \<Rightarrow> real \<times> real \<times> real \<times> real" where
  "set_rgba_alpha v c = (case c of (r, g, b, a) \<Rightarrow> (r, g, b, v))"

definition set_pos_x :: "real \<Rightarrow> vec3 \<Rightarrow> vec3" where
  "set_pos_x v c = (case c of (x, y, z) \<Rightarrow> (v, y, z))"

definition set_pos_y :: "real \<Rightarrow> vec3 \<Rightarrow> vec3" where
  "set_pos_y v c = (case c of (x, y, z) \<Rightarrow> (x, v, z))"

text \<open>
  \<^verbatim>\<open>initialize_episode\<close> reads and advances two generators: the task's own
  (\<^verbatim>\<open>self.random\<close>) and numpy's process-wide one (\<^verbatim>\<open>np.random\<close>), which is therefore an
  explicit argument and result. The function returns the task, the physics and the
  process-wide generator after the call. What the engine does when the reset context
  closes, and \<^verbatim>\<open>base.Task.initialize_episode\<close>, belong to dm\_control and draw no sample;
  they are left out.
\<close>

definition initialize_episode ::
  "jitterbug \<Rightarrow> physics \<Rightarrow> rng \<Rightarrow> error + (jitterbug \<times> physics \<times> rng)" where
  "initialize_episode self p np_random =
     (case uniform 0 (2 * pi) (random self) of (angle, g1) \<Rightarrow>
      case uniform 0.05 0.3 g1 of (radius, g2) \<Rightarrow>
      case uniform 0 (2 * pi) np_random of (yaw, np_random') \<Rightarrow>
      let self' = self\<lparr>random := g2\<rparr> in
      if task self = ''move_from_origin'' then
        Inr (self',
             p\<lparr>model_geom_rgba_targetPointer :=
                  set_rgba_alpha 0 (model_geom_rgba_targetPointer p)\<rparr>,
             np_random')
      else if task self = ''face_direction'' then
        Inr (self',
             p\<lparr>model_body_quat_target := (cos (yaw / 2), 0, 0, 1 * sin (yaw / 2))\<rparr>,
             np_random')
      else if task self = ''move_in_direction'' then
        Inr (self',
             p\<lparr>model_body_quat_target := (cos (yaw / 2), 0, 0, 1 * sin (yaw / 2))\<rparr>,
             np_random')
      else if task self = ''move_to_position'' then
        Inr (self',
             p\<lparr>model_geom_rgba_targetPointer :=
                  set_rgba_alpha 0 (model_geom_rgba_targetPointer p),
               model_body_pos_target :=
                  set_pos_y (radius * cos angle)
                    (set_pos_x (radius * sin angle) (model_body_pos_target p))\<rparr>,
             np_random')
      else if task self = ''move_to_pose'' then
        Inr (self',
             p\<lparr>model_body_pos_target :=
                  set_pos_y (radius * cos angle)
                    (set_pos_x (radius * sin angle) (model_body_pos_target p)),
               model_body_quat_target := (cos (yaw / 2), 0, 0, 1 * sin (yaw / 2))\<rparr>,
             np_random')
      else Inl (ValueError (task self)))"

subsection \<open>Observations\<close>

text \<open>
  A \<^verbatim>\<open>collections.OrderedDict\<close> is the list of its items in insertion order;
  \<^verbatim>\<open>obs[k] = v\<close> replaces the value of a key that is present and appends a new item
  otherwise.
\<close>

type_synonym observation = "(string \<times> real list) list"

fun setitem :: "observation \<Rightarrow> string \<Rightarrow> real list \<Rightarrow> observation" where
  "setitem [] k v = [(k, v)]"
| "setitem ((k', v') # obs) k v =
     (if k' = k then (k, v) # obs else (k', v') # setitem obs k v)"

definition get_observation :: "jitterbug \<Rightarrow> physics \<Rightarrow> error + observation" where
  "get_observation self p =
     (let obs = [];
          obs = setitem obs ''position''
                  (vec3_list (fst (jitterbug_position p)) @ quat_list (snd (jitterbug_position p)));
          obs = setitem obs ''velocity''
                  (vec3_list (fst (jitterbug_velocity p)) @ vec3_list (snd (jitterbug_velocity p)));
          obs = setitem obs ''motor_position'' (motor_position p);
          obs = setitem obs ''motor_velocity'' (motor_velocity p)
      in if task self = ''move_from_origin'' then Inr obs
         else if task self = ''face_direction'' then
           Inr (setitem obs ''target_direction'' (vec2_list (vec2_direction_to_target p)))
         else if task self = ''move_in_direction'' then
           Inr (setitem obs ''target_direction'' (vec2_list (vec2_direction_to_target p)))
         else if task self = ''move_to_position'' then
           Inr (setitem obs ''target_position'' (vec3_list (vec3_jitterbug_to_target p)))
         else if task self = ''move_to_pose'' then
           (let obs = setitem obs ''target_position'' (vec3_list (vec3_jitterbug_to_target p));
                obs = setitem obs ''target_direction'' (vec2_list (vec2_direction_to_target p))
            in Inr obs)
         else Inl (ValueError (task self)))"

subsection \<open>Rewards\<close>

definition face_direction_reward :: "physics \<Rightarrow> real" where
  "face_direction_reward p =
     (let angle_to_target = angle_jitterbug_to_target p
      in 2 / (\<bar>angle_to_target\<bar> / pi + 1) - 1)"

definition move_to_position_reward :: "physics \<Rightarrow> real" where
  "move_to_position_reward p =
     (let dist_to_target = linalg_norm (vec3_jitterbug_to_target p)
      in 1 / (10 * dist_to_target + 1))"

definition upright_reward :: "physics \<Rightarrow> real" where
  "upright_reward p = min (max 0 (data_xmat_jitterbug_zz p)) 1"

definition vec3_xy :: "vec3 \<Rightarrow> vec2" where
  "vec3_xy v = (case v of (x, y, z) \<Rightarrow> (x, y))"

definition vec2_scale :: "real \<Rightarrow> vec2 \<Rightarrow> vec2" where
  "vec2_scale c v = (case v of (x, y) \<Rightarrow> (c * x, c * y))"

text \<open>
  The \<^verbatim>\<open>if\<close>/\<^verbatim>\<open>elif\<close> chain of \<^verbatim>\<open>get_reward\<close>: the value of \<^verbatim>\<open>r\<close> when the chain is left, or
  the \<^verbatim>\<open>ValueError\<close> of its \<^verbatim>\<open>else\<close> branch.
\<close>

definition get_reward_dispatch :: "jitterbug \<Rightarrow> physics \<Rightarrow> error + real" where
  "get_reward_dispatch self p =
     (if task self = ''move_from_origin'' then
        Inr (1 - move_to_position_reward p)
      else if task self = ''face_direction'' then
        Inr (face_direction_reward p)
      else if task self = ''move_in_direction'' then
        (let max_speed_per_step = 0.3;
             jitterbug_vel = vec3_xy (jitterbug_velocity_xyz p);
             target_vel = vec2_scale 1.0 (target_direction_vec2 p)
         in Inr (min (max 0.0 (matmul2 jitterbug_vel target_vel) / max_speed_per_step) 1.0))
      else if task self = ''move_to_position'' then
        Inr (move_to_position_reward p)
      else if task self = ''move_to_pose'' then
        Inr (move_to_position_reward p * face_direction_reward p)
      else Inl (ValueError (task self)))"

text \<open>\<^verbatim>\<open>get_reward\<close>: the chain, then \<^verbatim>\<open>r *= self.upright_reward(physics)\<close>.\<close>

definition get_reward :: "jitterbug \<Rightarrow> physics \<Rightarrow> error + real" where
  "get_reward self p =
     (case get_reward_dispatch self p of
        Inl e \<Rightarrow> Inl e
      | Inr r \<Rightarrow> Inr (r * upright_reward p))"

subsection \<open>Sample states\<close>

text \<open>
  A state with the robot and the target both at the origin in their default orientation,
  nothing moving, the robot upright; and a task instance as the constructor builds it.
\<close>

definition physics_rest :: physics where
  "physics_rest =
     \<lparr>data_qpos_root = ((0, 0, 0), (1, 0, 0, 0)),
      data_qvel_root = ((0, 0, 0), (0, 0, 0)),
      data_qpos_jointMass = [0],
      data_qvel_jointMass = [0],
      data_geom_xpos_target = (0, 0, 0),
      data_xquat_target = (1, 0, 0, 0),
      data_xmat_jitterbug_zz = 1,
      model_geom_rgba_targetPointer = (1, 0, 0, 1),
      model_body_quat_target = (1, 0, 0, 0),
      model_body_pos_target = (0, 0, 0)\<rparr>"

definition jitterbug_of :: "string \<Rightarrow> rng \<Rightarrow> jitterbug" where
  "jitterbug_of tsk rnd =
     \<lparr>task_names = filter (\<lambda>n. n \<in> set SUITE_tasks) module_functions, task = tsk, random = rnd\<rparr>"

subsection \<open>The specification's clamp\<close>

text \<open>
  \<open>clamp(x, lo, hi)\<close> as the specification of the move-in-direction reward uses it; the
  source writes \<^verbatim>\<open>min(max(0.0, ...) / max_speed_per_step, 1.0)\<close> instead.
\<close>

definition clamp :: "real \<Rightarrow> real \<Rightarrow> real \<Rightarrow> real" where
  "clamp x lo hi = max lo (min x hi)"

section \<open>Properties\<close>

subsection \<open>The normalisation loops\<close>

lemma while_gt_pi_id: "angle \<le> pi \<Longrightarrow> while_gt_pi angle = angle"
  by (subst while_gt_pi.simps) simp

lemma while_le_neg_pi_id: "- pi < angle \<Longrightarrow> while_le_neg_pi angle = angle"
  by (subst while_le_neg_pi.simps) simp

lemma ceiling_shift: "\<lceil>(a - 2 * pi - pi) / (2 * pi)\<rceil> = \<lceil>(a - pi) / (2 * pi)\<rceil> - 1"
proof -
  have "(a - 2 * pi - pi) / (2 * pi) = (a - pi) / (2 * pi) - 1"
    by (simp add: field_simps)
  then show ?thesis by simp
qed

lemma while_gt_pi_closed:
  "while_gt_pi a = (if a > pi then a - 2 * pi * of_int \<lceil>(a - pi) / (2 * pi)\<rceil> else a)"
proof (induction a rule: while_gt_pi.induct)
  case (1 a)
  show ?case
  proof (cases "a > pi")
    case False
    then show ?thesis by (simp add: while_gt_pi_id)
  next
    case True
    note gt = this
    have unf: "while_gt_pi a = while_gt_pi (a - 2 * pi)"
      using gt by (subst while_gt_pi.simps) simp
    show ?thesis
    proof (cases "a - 2 * pi > pi")
      case True
      with 1 gt have "while_gt_pi (a - 2 * pi) =
          a - 2 * pi - 2 * pi * of_int \<lceil>(a - 2 * pi - pi) / (2 * pi)\<rceil>" by simp
      also have "\<dots> = a - 2 * pi * of_int \<lceil>(a - pi) / (2 * pi)\<rceil>"
        unfolding ceiling_shift by (simp add: algebra_simps)
      finally show ?thesis using unf gt by simp
    next
      case False
      then have small: "a - 2 * pi \<le> pi" by simp
      have "0 < (a - pi) / (2 * pi)" using gt by simp
      moreover have "(a - pi) / (2 * pi) \<le> 1" using small by (simp add: field_simps)
      ultimately have "\<lceil>(a - pi) / (2 * pi)\<rceil> = 1" by linarith
      then show ?thesis using unf gt small by (simp add: while_gt_pi_id)
    qed
  qed
qed

lemma while_gt_pi_le: "while_gt_pi a \<le> pi"
proof (induction a rule: while_gt_pi.induct)
  case (1 a)
  then show ?case by (subst while_gt_pi.simps) simp
qed

lemma while_le_neg_pi_gt: "- pi < while_le_neg_pi a"
proof (induction a rule: while_le_neg_pi.induct)
  case (1 a)
  then show ?case by (subst while_le_neg_pi.simps) simp
qed

lemma floor_shift: "\<lfloor>(- pi - (a + 2 * pi)) / (2 * pi)\<rfloor> = \<lfloor>(- pi - a) / (2 * pi)\<rfloor> - 1"
proof -
  have "(- pi - (a + 2 * pi)) / (2 * pi) = (- pi - a) / (2 * pi) - 1"
    by (simp add: field_simps)
  then show ?thesis by simp
qed

lemma while_le_neg_pi_closed:
  "while_le_neg_pi a =
     (if a \<le> - pi then a + 2 * pi * of_int (\<lfloor>(- pi - a) / (2 * pi)\<rfloor> + 1) else a)"
proof (induction a rule: while_le_neg_pi.induct)
  case (1 a)
  show ?case
  proof (cases "a \<le> - pi")
    case False
    then show ?thesis by (simp add: while_le_neg_pi_id)
  next
    case True
    note le = this
    have unf: "while_le_neg_pi a = while_le_neg_pi (a + 2 * pi)"
      using le by (subst while_le_neg_pi.simps) simp
    show ?thesis
    proof (cases "a + 2 * pi \<le> - pi")
      case True
      with 1 le have "while_le_neg_pi (a + 2 * pi) =
          a + 2 * pi + 2 * pi * of_int (\<lfloor>(- pi - (a + 2 * pi)) / (2 * pi)\<rfloor> + 1)" by simp
      also have "\<dots> = a + 2 * pi * of_int (\<lfloor>(- pi - a) / (2 * pi)\<rfloor> + 1)"
        unfolding floor_shift by (simp add: algebra_simps)
      finally show ?thesis using unf le by simp
    next
      case False
      then have big: "- pi < a + 2 * pi" by simp
      have "0 \<le> (- pi - a) / (2 * pi)" using le by simp
      moreover have "(- pi - a) / (2 * pi) < 1" using big by (simp add: field_simps)
      ultimately have "\<lfloor>(- pi - a) / (2 * pi)\<rfloor> = 0" by linarith
      then show ?thesis using unf le big by (simp add: while_le_neg_pi_id)
    qed
  qed
qed

lemma while_le_neg_pi_le: "a \<le> pi \<Longrightarrow> while_le_neg_pi a \<le> pi"
proof (induction a rule: while_le_neg_pi.induct)
  case (1 a)
  show ?case
  proof (cases "a \<le> - pi")
    case True
    then have "a + 2 * pi \<le> pi" by simp
    with 1 True show ?thesis by (subst while_le_neg_pi.simps) simp
  next
    case False
    with 1 show ?thesis by (simp add: while_le_neg_pi_id)
  qed
qed

lemma loops_range: "- pi < while_le_neg_pi (while_gt_pi d) \<and> while_le_neg_pi (while_gt_pi d) \<le> pi"
  by (intro conjI while_le_neg_pi_gt while_le_neg_pi_le while_gt_pi_le)

lemma loops_shift: "\<exists>k::int. while_le_neg_pi (while_gt_pi d) = d + 2 * pi * of_int k"
proof -
  obtain k1 :: int where k1: "while_gt_pi d = d + 2 * pi * of_int k1"
  proof (cases "d > pi")
    case True
    then have "while_gt_pi d = d + 2 * pi * of_int (- \<lceil>(d - pi) / (2 * pi)\<rceil>)"
      by (subst while_gt_pi_closed) simp
    then show ?thesis using that by blast
  next
    case False
    then have "while_gt_pi d = d + 2 * pi * of_int 0" by (simp add: while_gt_pi_id)
    then show ?thesis using that by blast
  qed
  obtain k2 :: int where k2: "while_le_neg_pi (while_gt_pi d) = while_gt_pi d + 2 * pi * of_int k2"
  proof (cases "while_gt_pi d \<le> - pi")
    case True
    then have "while_le_neg_pi (while_gt_pi d) =
        while_gt_pi d + 2 * pi * of_int (\<lfloor>(- pi - while_gt_pi d) / (2 * pi)\<rfloor> + 1)"
      by (subst while_le_neg_pi_closed) simp
    then show ?thesis using that by blast
  next
    case False
    then have "while_le_neg_pi (while_gt_pi d) = while_gt_pi d + 2 * pi * of_int 0"
      by (simp add: while_le_neg_pi_id)
    then show ?thesis using that by blast
  qed
  have "while_le_neg_pi (while_gt_pi d) = d + 2 * pi * of_int (k1 + k2)"
    using k1 k2 by (simp add: algebra_simps)
  then show ?thesis by blast
qed

lemma loops_closed:
  "while_le_neg_pi (while_gt_pi d) = d - 2 * pi * of_int \<lceil>(d - pi) / (2 * pi)\<rceil>"
proof -
  define r where "r = while_le_neg_pi (while_gt_pi d)"
  obtain k :: int where k: "r = d + 2 * pi * of_int k"
    using loops_shift [of d] unfolding r_def by blast
  have rng: "- pi < r" "r \<le> pi" using loops_range [of d] unfolding r_def by simp_all
  have "(r - pi) / (2 * pi) \<le> 0" using rng by (simp add: field_simps)
  moreover have "- 1 < (r - pi) / (2 * pi)" using rng by (simp add: field_simps)
  ultimately have c0: "\<lceil>(r - pi) / (2 * pi)\<rceil> = 0" by linarith
  have "(r - pi) / (2 * pi) = (d - pi) / (2 * pi) + of_int k"
    unfolding k by (simp add: field_simps)
  then have "\<lceil>(r - pi) / (2 * pi)\<rceil> = \<lceil>(d - pi) / (2 * pi)\<rceil> + k" by simp
  with c0 have "k = - \<lceil>(d - pi) / (2 * pi)\<rceil>" by simp
  with k show ?thesis unfolding r_def by simp
qed

text \<open>
  Claim C3. For every state, and for every unnormalised difference \<open>d\<close> of two yaw values,
  \<^verbatim>\<open>angle_jitterbug_to_target\<close> returns the difference of the target yaw and the robot
  yaw moved into the half-open interval \<open>(-\<pi>, \<pi>]\<close> by steps of \<open>2\<pi>\<close>: the first loop
  lowers a value above \<open>\<pi>\<close> by \<open>2\<pi>\<close> until it is at most \<open>\<pi>\<close>, the second raises a value
  at or below \<open>-\<pi>\<close> by \<open>2\<pi>\<close> until it is above \<open>-\<pi>\<close>; both loops terminate (the functions
  are total), a difference of exactly \<open>-\<pi>\<close> becomes \<open>\<pi>\<close>, and the result never leaves
  \<open>(-\<pi>, \<pi>]\<close>.
\<close>

theorem angle_jitterbug_to_target_normalized:
  "(- pi < angle_jitterbug_to_target p \<and> angle_jitterbug_to_target p \<le> pi)
   \<and> angle_jitterbug_to_target p =
       (target_direction_yaw p - jitterbug_direction_yaw p)
       - 2 * pi * of_int \<lceil>(target_direction_yaw p - jitterbug_direction_yaw p - pi) / (2 * pi)\<rceil>
   \<and> angle_jitterbug_to_target p =
       while_le_neg_pi (while_gt_pi (target_direction_yaw p - jitterbug_direction_yaw p))
   \<and> (- pi < while_le_neg_pi (while_gt_pi d) \<and> while_le_neg_pi (while_gt_pi d) \<le> pi)
   \<and> while_le_neg_pi (while_gt_pi d) = d - 2 * pi * of_int \<lceil>(d - pi) / (2 * pi)\<rceil>
   \<and> while_gt_pi d = (if d > pi then d - 2 * pi * of_int \<lceil>(d - pi) / (2 * pi)\<rceil> else d)
   \<and> while_le_neg_pi d =
       (if d \<le> - pi then d + 2 * pi * of_int (\<lfloor>(- pi - d) / (2 * pi)\<rfloor> + 1) else d)
   \<and> while_le_neg_pi (while_gt_pi (- pi)) = pi"
proof -
  have def: "angle_jitterbug_to_target p =
       while_le_neg_pi (while_gt_pi (target_direction_yaw p - jitterbug_direction_yaw p))"
    by (simp add: angle_jitterbug_to_target_def Let_def)
  have bnd: "while_le_neg_pi (while_gt_pi (- pi)) = pi"
    by (subst loops_closed) simp
  have r1: "- pi < while_le_neg_pi (while_gt_pi e) \<and> while_le_neg_pi (while_gt_pi e) \<le> pi" for e
    by (rule loops_range)
  have r2: "while_le_neg_pi (while_gt_pi e) = e - 2 * pi * of_int \<lceil>(e - pi) / (2 * pi)\<rceil>" for e
    by (rule loops_closed)
  have r3: "while_gt_pi d = (if d > pi then d - 2 * pi * of_int \<lceil>(d - pi) / (2 * pi)\<rceil> else d)"
    by (rule while_gt_pi_closed)
  have r4: "while_le_neg_pi d =
       (if d \<le> - pi then d + 2 * pi * of_int (\<lfloor>(- pi - d) / (2 * pi)\<rfloor> + 1) else d)"
    by (rule while_le_neg_pi_closed)
  show ?thesis
    unfolding def
    by (intro conjI r1 r2 r3 r4 bnd refl)
qed

subsection \<open>Yaw angles\<close>

lemma arctan2_range: "- pi < arctan2 y x \<and> arctan2 y x \<le> pi"
proof -
  have b: "- (pi / 2) < arctan (y / x)" "arctan (y / x) < pi / 2"
    by (rule arctan_lbound, rule arctan_ubound)
  have neg: "x < 0 \<Longrightarrow> 0 \<le> y \<Longrightarrow> arctan (y / x) \<le> 0"
    by (simp add: divide_nonneg_neg arctan_le_zero_iff)
  have pos: "x < 0 \<Longrightarrow> y < 0 \<Longrightarrow> 0 < arctan (y / x)"
    by (simp add: divide_neg_neg zero_less_arctan_iff)
  show ?thesis
    using b neg pos pi_gt_zero unfolding arctan2_def by (auto simp: not_less)
qed

lemma jitterbug_direction_yaw_eq:
  "jitterbug_direction_yaw p =
     arctan2 (mat_10 (mju_quat2Mat (snd (data_qpos_root p))))
             (mat_00 (mju_quat2Mat (snd (data_qpos_root p)))) - pi / 2"
  by (simp add: jitterbug_direction_yaw_def jitterbug_position_quat_def jitterbug_position_def
      Let_def)

lemma jitterbug_direction_yaw_range:
  "- (3 * pi / 2) < jitterbug_direction_yaw p \<and> jitterbug_direction_yaw p \<le> pi / 2"
  using arctan2_range
    [of "mat_10 (mju_quat2Mat (snd (data_qpos_root p)))"
        "mat_00 (mju_quat2Mat (snd (data_qpos_root p)))"]
  unfolding jitterbug_direction_yaw_eq by simp

text \<open>
  Claim C4. \<^verbatim>\<open>jitterbug_direction_yaw\<close> returns \<open>arctan2 (mat[1,0]) (mat[0,0]) - \<pi>/2\<close>, and the
  claim (like the docstring, which promises the range \<open>[-\<pi>, \<pi>]\<close>) says that the value it
  returns is a yaw in \<open>(-\<pi>, \<pi>]\<close>. The subtraction is not followed by a normalisation, so the
  value ranges over \<open>(-3\<pi>/2, \<pi>/2]\<close>: for the unit quaternion \<open>(3/5, 0, 0, -4/5)\<close> the code
  returns a value below \<open>-\<pi>\<close>.
\<close>

theorem jitterbug_direction_yaw_below_neg_pi:
  "jitterbug_direction_yaw (physics_rest\<lparr>data_qpos_root := ((0, 0, 0), (3/5, 0, 0, - 4/5))\<rparr>)
     = arctan2 (- 24/25) (- 7/25) - pi / 2
   \<and> jitterbug_direction_yaw (physics_rest\<lparr>data_qpos_root := ((0, 0, 0), (3/5, 0, 0, - 4/5))\<rparr>)
     < - pi"
proof -
  have e: "jitterbug_direction_yaw (physics_rest\<lparr>data_qpos_root := ((0, 0, 0), (3/5, 0, 0, - 4/5))\<rparr>)
     = arctan2 (- 24/25) (- 7/25) - pi / 2"
    unfolding jitterbug_direction_yaw_eq
    by (simp add: mju_quat2Mat_def mat_10_def mat_00_def)
  have "arctan2 (- 24/25) (- 7/25) = arctan (24/7) - pi"
    by (simp add: arctan2_def)
  moreover have "arctan (24/7) < pi / 2" by (rule arctan_ubound)
  ultimately have "arctan2 (- 24/25) (- 7/25) - pi / 2 < - pi" by simp
  with e show ?thesis by simp
qed

subsection \<open>The face-direction reward\<close>

lemma face_direction_reward_eq:
  "face_direction_reward p = 2 / (\<bar>angle_jitterbug_to_target p\<bar> / pi + 1) - 1"
  by (simp add: face_direction_reward_def Let_def)

lemma angle_jitterbug_to_target_range:
  "- pi < angle_jitterbug_to_target p \<and> angle_jitterbug_to_target p \<le> pi"
  unfolding angle_jitterbug_to_target_def Let_def
  by (intro conjI while_le_neg_pi_gt while_le_neg_pi_le while_gt_pi_le)

lemma face_formula_antimono:
  fixes a b :: real
  assumes "0 \<le> a" "a \<le> b"
  shows "2 / (b / pi + 1) - 1 \<le> 2 / (a / pi + 1) - 1"
proof -
  have pa: "0 < a / pi + 1" using assms by (simp add: add_nonneg_pos)
  have "a / pi + 1 \<le> b / pi + 1" using assms by (simp add: divide_right_mono)
  with pa have "2 / (b / pi + 1) \<le> 2 / (a / pi + 1)"
    by (intro divide_left_mono) (auto intro: mult_pos_pos less_le_trans)
  then show ?thesis by simp
qed

lemma face_formula_strict:
  fixes a b :: real
  assumes "0 \<le> a" "a < b"
  shows "2 / (b / pi + 1) - 1 < 2 / (a / pi + 1) - 1"
proof -
  have pa: "0 < a / pi + 1" using assms by (simp add: add_nonneg_pos)
  have "a / pi + 1 < b / pi + 1" using assms by (simp add: divide_strict_right_mono)
  with pa have "2 / (b / pi + 1) < 2 / (a / pi + 1)"
    by (intro divide_strict_left_mono) (auto intro: mult_pos_pos less_trans)
  then show ?thesis by simp
qed

lemma target_yaw_sample_neg:
  "target_direction_yaw (physics_rest\<lparr>data_xquat_target := (sqrt 2 / 2, 0, 0, - (sqrt 2 / 2))\<rparr>)
     = - (pi / 2)"
  by (simp add: target_direction_yaw_def target_position_quat_def mju_quat2Mat_def mat_10_def
      mat_00_def arctan2_def Let_def)

lemma target_yaw_sample_pos:
  "target_direction_yaw (physics_rest\<lparr>data_xquat_target := (sqrt 2 / 2, 0, 0, sqrt 2 / 2)\<rparr>)
     = pi / 2"
  by (simp add: target_direction_yaw_def target_position_quat_def mju_quat2Mat_def mat_10_def
      mat_00_def arctan2_def Let_def)

lemma jitterbug_yaw_rest:
  "jitterbug_direction_yaw (physics_rest\<lparr>data_xquat_target := q\<rparr>) = - (pi / 2)"
  unfolding jitterbug_direction_yaw_eq
  by (simp add: physics_rest_def mju_quat2Mat_def mat_10_def mat_00_def arctan2_def)

lemma angle_sample_aligned:
  "angle_jitterbug_to_target
     (physics_rest\<lparr>data_xquat_target := (sqrt 2 / 2, 0, 0, - (sqrt 2 / 2))\<rparr>) = 0"
  unfolding angle_jitterbug_to_target_def Let_def target_yaw_sample_neg jitterbug_yaw_rest
  by (simp add: while_gt_pi_id while_le_neg_pi_id)

lemma angle_sample_opposed:
  "angle_jitterbug_to_target
     (physics_rest\<lparr>data_xquat_target := (sqrt 2 / 2, 0, 0, sqrt 2 / 2)\<rparr>) = pi"
  unfolding angle_jitterbug_to_target_def Let_def target_yaw_sample_pos jitterbug_yaw_rest
  by (simp add: while_gt_pi_id while_le_neg_pi_id)

text \<open>
  Claim C5. The face-direction reward is \<open>2 / (|relativeYaw| / \<pi> + 1) - 1\<close>. The relative yaw
  always lies in \<open>(-\<pi>, \<pi>]\<close>, so the reward always lies in \<open>[0, 1]\<close>; it is exactly 1 when the
  relative yaw is 0, exactly 0 when its absolute value is \<open>\<pi>\<close>, and it decreases (strictly) as
  the absolute value of the relative yaw grows.
\<close>

theorem face_direction_reward_shape:
  "face_direction_reward p = 2 / (\<bar>angle_jitterbug_to_target p\<bar> / pi + 1) - 1
   \<and> 0 \<le> face_direction_reward p \<and> face_direction_reward p \<le> 1
   \<and> (angle_jitterbug_to_target p = 0 \<longrightarrow> face_direction_reward p = 1)
   \<and> (\<bar>angle_jitterbug_to_target p\<bar> = pi \<longrightarrow> face_direction_reward p = 0)
   \<and> (\<bar>angle_jitterbug_to_target p\<bar> < \<bar>angle_jitterbug_to_target q\<bar>
        \<longrightarrow> face_direction_reward q < face_direction_reward p)
   \<and> (\<bar>angle_jitterbug_to_target p\<bar> \<le> \<bar>angle_jitterbug_to_target q\<bar>
        \<longrightarrow> face_direction_reward q \<le> face_direction_reward p)"
proof -
  have r: "\<bar>angle_jitterbug_to_target p\<bar> \<le> pi"
    using angle_jitterbug_to_target_range [of p] by (simp add: abs_le_iff)
  have lo: "0 \<le> face_direction_reward p"
    using face_formula_antimono [of "\<bar>angle_jitterbug_to_target p\<bar>" pi] r
    by (simp add: face_direction_reward_eq)
  have hi: "face_direction_reward p \<le> 1"
    using face_formula_antimono [of 0 "\<bar>angle_jitterbug_to_target p\<bar>"]
    by (simp add: face_direction_reward_eq)
  have one: "angle_jitterbug_to_target p = 0 \<longrightarrow> face_direction_reward p = 1"
    by (simp add: face_direction_reward_eq)
  have zero: "\<bar>angle_jitterbug_to_target p\<bar> = pi \<longrightarrow> face_direction_reward p = 0"
    by (simp add: face_direction_reward_eq)
  have strict: "\<bar>angle_jitterbug_to_target p\<bar> < \<bar>angle_jitterbug_to_target q\<bar>
        \<longrightarrow> face_direction_reward q < face_direction_reward p"
    using face_formula_strict [of "\<bar>angle_jitterbug_to_target p\<bar>" "\<bar>angle_jitterbug_to_target q\<bar>"]
    by (simp add: face_direction_reward_eq)
  have mono: "\<bar>angle_jitterbug_to_target p\<bar> \<le> \<bar>angle_jitterbug_to_target q\<bar>
        \<longrightarrow> face_direction_reward q \<le> face_direction_reward p"
    using face_formula_antimono [of "\<bar>angle_jitterbug_to_target p\<bar>" "\<bar>angle_jitterbug_to_target q\<bar>"]
    by (simp add: face_direction_reward_eq)
  show ?thesis
    by (intro conjI face_direction_reward_eq lo hi one zero strict mono)
qed

theorem face_direction_reward_shape_witness:
  "angle_jitterbug_to_target
     (physics_rest\<lparr>data_xquat_target := (sqrt 2 / 2, 0, 0, - (sqrt 2 / 2))\<rparr>) = 0
   \<and> face_direction_reward
     (physics_rest\<lparr>data_xquat_target := (sqrt 2 / 2, 0, 0, - (sqrt 2 / 2))\<rparr>) = 1
   \<and> \<bar>angle_jitterbug_to_target
     (physics_rest\<lparr>data_xquat_target := (sqrt 2 / 2, 0, 0, sqrt 2 / 2)\<rparr>)\<bar> = pi
   \<and> face_direction_reward
     (physics_rest\<lparr>data_xquat_target := (sqrt 2 / 2, 0, 0, sqrt 2 / 2)\<rparr>) = 0
   \<and> \<bar>angle_jitterbug_to_target
        (physics_rest\<lparr>data_xquat_target := (sqrt 2 / 2, 0, 0, - (sqrt 2 / 2))\<rparr>)\<bar>
      < \<bar>angle_jitterbug_to_target
        (physics_rest\<lparr>data_xquat_target := (sqrt 2 / 2, 0, 0, sqrt 2 / 2)\<rparr>)\<bar>
   \<and> face_direction_reward (physics_rest\<lparr>data_xquat_target := (sqrt 2 / 2, 0, 0, sqrt 2 / 2)\<rparr>)
      < face_direction_reward
        (physics_rest\<lparr>data_xquat_target := (sqrt 2 / 2, 0, 0, - (sqrt 2 / 2))\<rparr>)"
  using face_direction_reward_shape
    [of "physics_rest\<lparr>data_xquat_target := (sqrt 2 / 2, 0, 0, - (sqrt 2 / 2))\<rparr>"
        "physics_rest\<lparr>data_xquat_target := (sqrt 2 / 2, 0, 0, sqrt 2 / 2)\<rparr>"]
    face_direction_reward_shape
    [of "physics_rest\<lparr>data_xquat_target := (sqrt 2 / 2, 0, 0, sqrt 2 / 2)\<rparr>"
        "physics_rest\<lparr>data_xquat_target := (sqrt 2 / 2, 0, 0, sqrt 2 / 2)\<rparr>"]
  unfolding angle_sample_aligned angle_sample_opposed
  by simp

subsection \<open>The position reward\<close>

lemma linalg_norm_nonneg: "0 \<le> linalg_norm v"
  by (cases v) (simp add: linalg_norm_def)

lemma move_to_position_reward_eq:
  "move_to_position_reward p = 1 / (10 * linalg_norm (vec3_jitterbug_to_target p) + 1)"
  by (simp add: move_to_position_reward_def Let_def)

lemma position_formula_strict:
  fixes a b :: real
  assumes "0 \<le> a" "a < b"
  shows "1 / (10 * b + 1) < 1 / (10 * a + 1)"
proof -
  have "0 < 10 * a + 1" using assms by simp
  moreover have "10 * a + 1 < 10 * b + 1" using assms by simp
  ultimately show ?thesis by (simp add: frac_less2)
qed

lemma position_formula_small:
  fixes d e :: real
  assumes "0 < e" "1 / (10 * e) < d"
  shows "1 / (10 * d + 1) < e"
proof -
  have dpos: "0 < d" using assms by (meson less_trans zero_less_divide_1_iff zero_less_mult_iff zero_less_numeral)
  from assms have "1 < d * (10 * e)" by (simp add: pos_divide_less_eq)
  then have "1 < (10 * d + 1) * e" using assms by (simp add: algebra_simps)
  moreover have "0 < 10 * d + 1" using dpos by simp
  ultimately show ?thesis by (simp add: pos_divide_less_eq mult.commute)
qed

text \<open>The distance in terms of the two positions the state holds.\<close>

lemma distance_of_positions:
  assumes "data_qpos_root p = ((rx, ry, rz), qt)" "data_geom_xpos_target p = (tx, ty, tz)"
  shows "linalg_norm (vec3_jitterbug_to_target p) =
           sqrt ((tx - rx)\<^sup>2 + (ty - ry)\<^sup>2 + (tz - rz)\<^sup>2)"
  using assms
  by (simp add: vec3_jitterbug_to_target_def target_position_xyz_def jitterbug_position_xyz_def
      jitterbug_position_def vec3_sub_def linalg_norm_def power2_eq_square)

lemma sum3_squares_zero:
  fixes a b c :: real
  shows "(a\<^sup>2 + b\<^sup>2 + c\<^sup>2 = 0) = (a = 0 \<and> b = 0 \<and> c = 0)"
proof
  assume z: "a\<^sup>2 + b\<^sup>2 + c\<^sup>2 = 0"
  have n: "0 \<le> a\<^sup>2" "0 \<le> b\<^sup>2" "0 \<le> c\<^sup>2" by simp_all
  from z n have "a\<^sup>2 = 0" "b\<^sup>2 = 0" "c\<^sup>2 = 0" by linarith+
  then show "a = 0 \<and> b = 0 \<and> c = 0" by simp
next
  assume "a = 0 \<and> b = 0 \<and> c = 0"
  then show "a\<^sup>2 + b\<^sup>2 + c\<^sup>2 = 0" by simp
qed

lemma distance_zero_iff:
  "(linalg_norm (vec3_jitterbug_to_target p) = 0) =
     (data_geom_xpos_target p = fst (data_qpos_root p))"
proof -
  obtain rx ry rz qt where r: "data_qpos_root p = ((rx, ry, rz), qt)"
    by (metis prod.exhaust)
  obtain tx ty tz where t: "data_geom_xpos_target p = (tx, ty, tz)"
    by (metis prod.exhaust)
  have "(sqrt ((tx - rx)\<^sup>2 + (ty - ry)\<^sup>2 + (tz - rz)\<^sup>2) = 0) =
          (tx = rx \<and> ty = ry \<and> tz = rz)"
    by (simp add: sum3_squares_zero)
  then show ?thesis
    unfolding distance_of_positions [OF r t] by (simp add: r t)
qed

lemma reward_one_iff:
  "(move_to_position_reward p = 1) = (linalg_norm (vec3_jitterbug_to_target p) = 0)"
proof -
  have "0 < 10 * linalg_norm (vec3_jitterbug_to_target p) + 1"
    using linalg_norm_nonneg [of "vec3_jitterbug_to_target p"] by simp
  then show ?thesis
    unfolding move_to_position_reward_eq by (simp add: field_simps)
qed

text \<open>
  Claim C6. The position reward is \<open>1 / (10 * dist + 1)\<close>, where \<open>dist\<close> is the norm of the
  vector from the robot to the target: with the robot at \<open>(rx, ry, rz)\<close> and the target at
  \<open>(tx, ty, tz)\<close> it is the Euclidean distance of the two points. For every robot and target
  position the reward lies in \<open>(0, 1]\<close>; it is exactly 1 at distance 0, that is exactly when
  the target position is the robot position; of two states, the one with the larger
  distance has the strictly smaller reward; and the reward tends to 0 as the distance
  grows: for every \<open>e > 0\<close>, every state with a distance above \<open>1 / (10 * e)\<close> has a reward
  below \<open>e\<close>.
\<close>

theorem move_to_position_reward_shape:
  "move_to_position_reward p = 1 / (10 * linalg_norm (vec3_jitterbug_to_target p) + 1)
   \<and> 0 < move_to_position_reward p \<and> move_to_position_reward p \<le> 1
   \<and> (linalg_norm (vec3_jitterbug_to_target p) = 0 \<longrightarrow> move_to_position_reward p = 1)
   \<and> (linalg_norm (vec3_jitterbug_to_target p) < linalg_norm (vec3_jitterbug_to_target q)
        \<longrightarrow> move_to_position_reward q < move_to_position_reward p)
   \<and> (0 < e \<and> 1 / (10 * e) < linalg_norm (vec3_jitterbug_to_target p)
        \<longrightarrow> move_to_position_reward p < e)
   \<and> (data_qpos_root p = ((rx, ry, rz), qt) \<and> data_geom_xpos_target p = (tx, ty, tz) \<longrightarrow>
        linalg_norm (vec3_jitterbug_to_target p) =
          sqrt ((tx - rx)\<^sup>2 + (ty - ry)\<^sup>2 + (tz - rz)\<^sup>2)
        \<and> move_to_position_reward p =
          1 / (10 * sqrt ((tx - rx)\<^sup>2 + (ty - ry)\<^sup>2 + (tz - rz)\<^sup>2) + 1))
   \<and> (move_to_position_reward p = 1) = (data_geom_xpos_target p = fst (data_qpos_root p))"
proof -
  have n: "0 \<le> linalg_norm (vec3_jitterbug_to_target p)" by (rule linalg_norm_nonneg)
  have pos: "0 < move_to_position_reward p"
    using n by (simp add: move_to_position_reward_eq add_nonneg_pos)
  have le: "move_to_position_reward p \<le> 1"
    using n by (simp add: move_to_position_reward_eq)
  have one: "linalg_norm (vec3_jitterbug_to_target p) = 0 \<longrightarrow> move_to_position_reward p = 1"
    by (simp add: move_to_position_reward_eq)
  have strict: "linalg_norm (vec3_jitterbug_to_target p) < linalg_norm (vec3_jitterbug_to_target q)
        \<longrightarrow> move_to_position_reward q < move_to_position_reward p"
    unfolding move_to_position_reward_eq using position_formula_strict [OF n] by blast
  have lim: "0 < e \<and> 1 / (10 * e) < linalg_norm (vec3_jitterbug_to_target p)
        \<longrightarrow> move_to_position_reward p < e"
    unfolding move_to_position_reward_eq using position_formula_small by blast
  have pts: "data_qpos_root p = ((rx, ry, rz), qt) \<and> data_geom_xpos_target p = (tx, ty, tz) \<longrightarrow>
        linalg_norm (vec3_jitterbug_to_target p) =
          sqrt ((tx - rx)\<^sup>2 + (ty - ry)\<^sup>2 + (tz - rz)\<^sup>2)
        \<and> move_to_position_reward p =
          1 / (10 * sqrt ((tx - rx)\<^sup>2 + (ty - ry)\<^sup>2 + (tz - rz)\<^sup>2) + 1)"
    unfolding move_to_position_reward_eq using distance_of_positions [of p rx ry rz qt tx ty tz]
    by simp
  have iff: "(move_to_position_reward p = 1) = (data_geom_xpos_target p = fst (data_qpos_root p))"
    unfolding reward_one_iff by (rule distance_zero_iff)
  show ?thesis
    by (intro conjI move_to_position_reward_eq pos le one strict lim pts iff)
qed

lemma sqrt_25: "sqrt 25 = 5"
proof -
  have "sqrt 25 = sqrt (5\<^sup>2)" by simp
  also have "\<dots> = 5" by (simp del: power2_eq_square)
  finally show ?thesis .
qed

lemma norm_sample_on_target:
  "linalg_norm (vec3_jitterbug_to_target
     (physics_rest\<lparr>data_qpos_root := ((3, 4, 0), (1, 0, 0, 0)),
                   data_geom_xpos_target := (3, 4, 0)\<rparr>)) = 0"
  by (simp add: vec3_jitterbug_to_target_def target_position_xyz_def jitterbug_position_xyz_def
      jitterbug_position_def vec3_sub_def linalg_norm_def)

lemma norm_sample_far:
  "linalg_norm (vec3_jitterbug_to_target
     (physics_rest\<lparr>data_qpos_root := ((1, 1, 0), (1, 0, 0, 0)),
                   data_geom_xpos_target := (4, 5, 0)\<rparr>)) = 5"
  by (simp add: vec3_jitterbug_to_target_def target_position_xyz_def jitterbug_position_xyz_def
      jitterbug_position_def vec3_sub_def linalg_norm_def sqrt_25)

theorem move_to_position_reward_shape_witness:
  "linalg_norm (vec3_jitterbug_to_target
     (physics_rest\<lparr>data_qpos_root := ((3, 4, 0), (1, 0, 0, 0)),
                   data_geom_xpos_target := (3, 4, 0)\<rparr>)) = 0
   \<and> move_to_position_reward
     (physics_rest\<lparr>data_qpos_root := ((3, 4, 0), (1, 0, 0, 0)),
                   data_geom_xpos_target := (3, 4, 0)\<rparr>) = 1
   \<and> linalg_norm (vec3_jitterbug_to_target
        (physics_rest\<lparr>data_qpos_root := ((3, 4, 0), (1, 0, 0, 0)),
                      data_geom_xpos_target := (3, 4, 0)\<rparr>))
      < linalg_norm (vec3_jitterbug_to_target
        (physics_rest\<lparr>data_qpos_root := ((1, 1, 0), (1, 0, 0, 0)),
                      data_geom_xpos_target := (4, 5, 0)\<rparr>))
   \<and> move_to_position_reward
        (physics_rest\<lparr>data_qpos_root := ((1, 1, 0), (1, 0, 0, 0)),
                      data_geom_xpos_target := (4, 5, 0)\<rparr>)
      < move_to_position_reward
        (physics_rest\<lparr>data_qpos_root := ((3, 4, 0), (1, 0, 0, 0)),
                      data_geom_xpos_target := (3, 4, 0)\<rparr>)
   \<and> (0::real) < 1 / 10
   \<and> 1 / (10 * (1 / 10))
      < linalg_norm (vec3_jitterbug_to_target
        (physics_rest\<lparr>data_qpos_root := ((1, 1, 0), (1, 0, 0, 0)),
                      data_geom_xpos_target := (4, 5, 0)\<rparr>))
   \<and> move_to_position_reward
        (physics_rest\<lparr>data_qpos_root := ((1, 1, 0), (1, 0, 0, 0)),
                      data_geom_xpos_target := (4, 5, 0)\<rparr>) < 1 / 10
   \<and> data_qpos_root
        (physics_rest\<lparr>data_qpos_root := ((1, 1, 0), (1, 0, 0, 0)),
                      data_geom_xpos_target := (4, 5, 0)\<rparr>) = ((1, 1, 0), (1, 0, 0, 0))
   \<and> data_geom_xpos_target
        (physics_rest\<lparr>data_qpos_root := ((1, 1, 0), (1, 0, 0, 0)),
                      data_geom_xpos_target := (4, 5, 0)\<rparr>) = (4, 5, 0)
   \<and> move_to_position_reward
        (physics_rest\<lparr>data_qpos_root := ((1, 1, 0), (1, 0, 0, 0)),
                      data_geom_xpos_target := (4, 5, 0)\<rparr>) = 1 / 51
   \<and> move_to_position_reward (physics_rest\<lparr>data_qpos_root := ((3, 4, 0), (1, 0, 0, 0))\<rparr>)
      = 1 / 51"
proof -
  define on_target where "on_target =
    physics_rest\<lparr>data_qpos_root := ((3, 4, 0), (1, 0, 0, 0)), data_geom_xpos_target := (3, 4, 0)\<rparr>"
  define far where "far =
    physics_rest\<lparr>data_qpos_root := ((1, 1, 0), (1, 0, 0, 0)), data_geom_xpos_target := (4, 5, 0)\<rparr>"
  define off where "off = physics_rest\<lparr>data_qpos_root := ((3, 4, 0), (1, 0, 0, 0))\<rparr>"
  have n0: "linalg_norm (vec3_jitterbug_to_target on_target) = 0"
    unfolding on_target_def by (rule norm_sample_on_target)
  have n5: "linalg_norm (vec3_jitterbug_to_target far) = 5"
    unfolding far_def by (rule norm_sample_far)
  have fr: "data_qpos_root far = ((1, 1, 0), (1, 0, 0, 0))" "data_geom_xpos_target far = (4, 5, 0)"
    by (simp_all add: far_def)
  have orr: "data_qpos_root off = ((3, 4, 0), (1, 0, 0, 0))" "data_geom_xpos_target off = (0, 0, 0)"
    by (simp_all add: off_def physics_rest_def)
  note a = move_to_position_reward_shape [of on_target far 1 3 4 0 "(1, 0, 0, 0)" 3 4 0]
  note b = move_to_position_reward_shape [of far on_target "1 / 10" 1 1 0 "(1, 0, 0, 0)" 4 5 0]
  note c = move_to_position_reward_shape [of off on_target 1 3 4 0 "(1, 0, 0, 0)" 0 0 0]
  have r1: "move_to_position_reward on_target = 1"
    using a n0 by blast
  have lt: "move_to_position_reward far < move_to_position_reward on_target"
    using a n0 n5 by simp
  have small: "move_to_position_reward far < 1 / 10"
    using b n5 by simp
  have "move_to_position_reward far = 1 / (10 * sqrt ((4 - 1)\<^sup>2 + (5 - 1)\<^sup>2 + (0 - 0)\<^sup>2) + 1)"
    using b fr by blast
  then have v: "move_to_position_reward far = 1 / 51"
    by (simp add: sqrt_25)
  have "move_to_position_reward off = 1 / (10 * sqrt ((0 - 3)\<^sup>2 + (0 - 4)\<^sup>2 + (0 - 0)\<^sup>2) + 1)"
    using c orr by blast
  then have w: "move_to_position_reward off = 1 / 51"
    by (simp add: sqrt_25)
  have nlt: "linalg_norm (vec3_jitterbug_to_target on_target)
      < linalg_norm (vec3_jitterbug_to_target far)"
    using n0 n5 by simp
  have nbig: "1 / (10 * (1 / 10)) < linalg_norm (vec3_jitterbug_to_target far)"
    using n5 by simp
  have e: "(0::real) < 1 / 10" by simp
  note facts = n0 r1 nlt lt e nbig small fr v w
  show ?thesis
    by (intro conjI facts [unfolded on_target_def far_def off_def])
qed

subsection \<open>The move-in-direction reward\<close>

lemma move_in_direction_dispatch:
  "task self = ''move_in_direction'' \<Longrightarrow>
   get_reward_dispatch self p =
     Inr (min (max 0 (matmul2 (vec3_xy (jitterbug_velocity_xyz p)) (target_direction_vec2 p)) / 0.3) 1)"
  by (cases "target_direction_vec2 p")
     (simp add: get_reward_dispatch_def Let_def vec2_scale_def)

lemma clamp_unit: "0 \<le> x \<Longrightarrow> clamp x 0 1 = min x 1"
  by (simp add: clamp_def)

text \<open>
  The heading of the target in terms of its orientation: the cosine and sine of
  \<open>arctan2 b a\<close> are \<open>a\<close> and \<open>b\<close> scaled to unit length.
\<close>

lemma sqrt_one_plus_ratio:
  fixes x y :: real
  assumes "x \<noteq> 0"
  shows "sqrt (1 + (y / x)\<^sup>2) = sqrt (x\<^sup>2 + y\<^sup>2) / \<bar>x\<bar>"
proof -
  have "1 + (y / x)\<^sup>2 = (x\<^sup>2 + y\<^sup>2) / x\<^sup>2"
    using assms by (simp add: field_simps power2_eq_square)
  then show ?thesis by (simp add: real_sqrt_divide)
qed

lemma hyp_pos:
  fixes x y :: real
  assumes "x \<noteq> 0 \<or> y \<noteq> 0"
  shows "0 < sqrt (x\<^sup>2 + y\<^sup>2)"
proof -
  have "x\<^sup>2 + y\<^sup>2 \<noteq> 0" using assms by (simp add: sum_power2_eq_zero_iff)
  moreover have "0 \<le> x\<^sup>2 + y\<^sup>2" by simp
  ultimately have "0 < x\<^sup>2 + y\<^sup>2" by linarith
  then show ?thesis by simp
qed

lemma cos_arctan_ratio:
  fixes x y :: real
  assumes "x \<noteq> 0"
  shows "cos (arctan (y / x)) = \<bar>x\<bar> / sqrt (x\<^sup>2 + y\<^sup>2)"
  by (simp add: cos_arctan sqrt_one_plus_ratio [OF assms])

lemma sin_arctan_ratio:
  fixes x y :: real
  assumes "x \<noteq> 0"
  shows "sin (arctan (y / x)) = (y / x) * \<bar>x\<bar> / sqrt (x\<^sup>2 + y\<^sup>2)"
  by (simp add: sin_arctan sqrt_one_plus_ratio [OF assms])

lemma cos_arctan2:
  fixes x y :: real
  assumes "x \<noteq> 0 \<or> y \<noteq> 0"
  shows "cos (arctan2 y x) = x / sqrt (x\<^sup>2 + y\<^sup>2)"
proof -
  consider "0 < x" | "x < 0" | "x = 0" "0 < y" | "x = 0" "y < 0"
    using assms by linarith
  then show ?thesis
  proof cases
    case 1
    then show ?thesis by (simp add: arctan2_def cos_arctan_ratio)
  next
    case 2
    then have "cos (arctan2 y x) = - cos (arctan (y / x))"
      by (simp add: arctan2_def cos_diff cos_add)
    with 2 show ?thesis by (simp add: cos_arctan_ratio)
  next
    case 3
    then show ?thesis by (simp add: arctan2_def)
  next
    case 4
    then show ?thesis by (simp add: arctan2_def)
  qed
qed

lemma sin_arctan2:
  fixes x y :: real
  assumes "x \<noteq> 0 \<or> y \<noteq> 0"
  shows "sin (arctan2 y x) = y / sqrt (x\<^sup>2 + y\<^sup>2)"
proof -
  consider "0 < x" | "x < 0" | "x = 0" "0 < y" | "x = 0" "y < 0"
    using assms by linarith
  then show ?thesis
  proof cases
    case 1
    then show ?thesis by (simp add: arctan2_def sin_arctan_ratio)
  next
    case 2
    then have "sin (arctan2 y x) = - sin (arctan (y / x))"
      by (simp add: arctan2_def sin_diff sin_add)
    with 2 show ?thesis by (simp add: sin_arctan_ratio)
  next
    case 3
    then show ?thesis by (simp add: arctan2_def)
  next
    case 4
    then show ?thesis by (simp add: arctan2_def)
  qed
qed

lemma target_direction_vec2_of_quat:
  assumes "data_xquat_target p = (w, x, y, z)"
    and "w*w + x*x - y*y - z*z \<noteq> 0 \<or> 2 * (x*y + w*z) \<noteq> 0"
  shows "target_direction_vec2 p =
     ((w*w + x*x - y*y - z*z) / sqrt ((w*w + x*x - y*y - z*z)\<^sup>2 + (2 * (x*y + w*z))\<^sup>2),
      (2 * (x*y + w*z)) / sqrt ((w*w + x*x - y*y - z*z)\<^sup>2 + (2 * (x*y + w*z))\<^sup>2))"
proof -
  have y: "target_direction_yaw p = arctan2 (2 * (x*y + w*z)) (w*w + x*x - y*y - z*z)"
    by (simp add: target_direction_yaw_def target_position_quat_def assms(1) mju_quat2Mat_def
        mat_10_def mat_00_def Let_def)
  show ?thesis
    unfolding target_direction_vec2_def Let_def y
    by (simp only: cos_arctan2 [OF assms(2)] sin_arctan2 [OF assms(2)])
qed

lemma target_direction_vec2_yaw:
  assumes "data_xquat_target p = (cos (th / 2), 0, 0, sin (th / 2))"
  shows "target_direction_vec2 p = (cos th, sin th)"
proof -
  have c: "cos (th / 2) * cos (th / 2) + 0 * 0 - 0 * 0 - sin (th / 2) * sin (th / 2) = cos th"
    using cos_double [of "th / 2"] by (simp add: power2_eq_square)
  have s: "2 * (0 * 0 + cos (th / 2) * sin (th / 2)) = sin th"
    using sin_double [of "th / 2"] by simp
  have nz: "cos th \<noteq> 0 \<or> sin th \<noteq> 0"
    using sin_cos_squared_add [of th] by (auto simp: power2_eq_square)
  have one: "sqrt ((cos th)\<^sup>2 + (sin th)\<^sup>2) = 1"
    by (simp add: add.commute)
  have nz': "cos (th / 2) * cos (th / 2) + 0 * 0 - 0 * 0 - sin (th / 2) * sin (th / 2) \<noteq> 0
      \<or> 2 * (0 * 0 + cos (th / 2) * sin (th / 2)) \<noteq> 0"
    unfolding c s by (rule nz)
  show ?thesis
    using target_direction_vec2_of_quat [OF assms nz'] unfolding c s one by simp
qed

lemma projection_of_state:
  assumes "data_qvel_root p = ((vx, vy, vz), wv)" "target_direction_vec2 p = (hx, hy)"
  shows "matmul2 (vec3_xy (jitterbug_velocity_xyz p)) (target_direction_vec2 p) = vx * hx + vy * hy"
  using assms
  by (simp add: matmul2_def vec3_xy_def jitterbug_velocity_xyz_def jitterbug_velocity_def)

lemma projection_over_length:
  fixes a b r :: real
  shows "vx * (a / r) + vy * (b / r) = (vx * a + vy * b) / r"
  by (simp add: add_divide_distrib)

text \<open>
  Claim C7. For the variant \<^verbatim>\<open>move_in_direction\<close> the base reward (the value of \<^verbatim>\<open>r\<close> before the
  uprightness factor) is \<open>clamp (max 0 (v \<bullet> h) / 0.3) 0 1\<close>, where \<open>v\<close> is the XY velocity of the
  robot and \<open>h\<close> the heading vector of the target: exactly 0 when the projection \<open>v \<bullet> h\<close> is
  not positive, exactly 1 when it is at least 0.3, and the projection divided by 0.3 in
  between. The heading is the unit vector of the first column \<open>(mat[0,0], mat[1,0])\<close> of the
  rotation matrix of the target orientation; for a target turned by the yaw \<open>th\<close> about the
  vertical, orientation \<open>(cos (th/2), 0, 0, sin (th/2))\<close>, it is \<open>(cos th, sin th)\<close>, and the
  projection of the velocity \<open>(vx, vy, vz)\<close> is \<open>vx * cos th + vy * sin th\<close>.
\<close>

theorem move_in_direction_reward:
  assumes "task self = ''move_in_direction''"
  shows "get_reward_dispatch self p =
       Inr (clamp (max 0 (matmul2 (vec3_xy (jitterbug_velocity_xyz p)) (target_direction_vec2 p))
                   / 0.3) 0 1)
     \<and> (matmul2 (vec3_xy (jitterbug_velocity_xyz p)) (target_direction_vec2 p) \<le> 0
          \<longrightarrow> get_reward_dispatch self p = Inr 0)
     \<and> (0.3 \<le> matmul2 (vec3_xy (jitterbug_velocity_xyz p)) (target_direction_vec2 p)
          \<longrightarrow> get_reward_dispatch self p = Inr 1)
     \<and> (0 < matmul2 (vec3_xy (jitterbug_velocity_xyz p)) (target_direction_vec2 p)
          \<and> matmul2 (vec3_xy (jitterbug_velocity_xyz p)) (target_direction_vec2 p) < 0.3
          \<longrightarrow> get_reward_dispatch self p =
              Inr (matmul2 (vec3_xy (jitterbug_velocity_xyz p)) (target_direction_vec2 p) / 0.3))
     \<and> (data_qvel_root p = ((vx, vy, vz), wv) \<and> data_xquat_target p = (w, x, y, z)
          \<and> (w*w + x*x - y*y - z*z \<noteq> 0 \<or> 2 * (x*y + w*z) \<noteq> 0)
          \<longrightarrow> matmul2 (vec3_xy (jitterbug_velocity_xyz p)) (target_direction_vec2 p) =
              (vx * (w*w + x*x - y*y - z*z) + vy * (2 * (x*y + w*z)))
              / sqrt ((w*w + x*x - y*y - z*z)\<^sup>2 + (2 * (x*y + w*z))\<^sup>2))
     \<and> (data_qvel_root p = ((vx, vy, vz), wv)
          \<and> data_xquat_target p = (cos (th / 2), 0, 0, sin (th / 2))
          \<longrightarrow> target_direction_vec2 p = (cos th, sin th)
            \<and> matmul2 (vec3_xy (jitterbug_velocity_xyz p)) (target_direction_vec2 p) =
                vx * cos th + vy * sin th
            \<and> get_reward_dispatch self p =
                Inr (clamp (max 0 (vx * cos th + vy * sin th) / 0.3) 0 1))"
proof -
  define d where "d = matmul2 (vec3_xy (jitterbug_velocity_xyz p)) (target_direction_vec2 p)"
  have e: "get_reward_dispatch self p = Inr (min (max 0 d / 0.3) 1)"
    unfolding d_def by (rule move_in_direction_dispatch [OF assms])
  have c: "clamp (max 0 d / 0.3) 0 1 = min (max 0 d / 0.3) 1"
    by (rule clamp_unit) simp
  have main: "get_reward_dispatch self p = Inr (clamp (max 0 d / 0.3) 0 1)"
    unfolding e c by simp
  have neg: "d \<le> 0 \<longrightarrow> get_reward_dispatch self p = Inr 0"
    unfolding e by (simp add: max_def)
  have big: "0.3 \<le> d \<longrightarrow> get_reward_dispatch self p = Inr 1"
    unfolding e by (simp add: max_def min_def)
  have mid: "0 < d \<and> d < 0.3 \<longrightarrow> get_reward_dispatch self p = Inr (d / 0.3)"
    unfolding e by (simp add: max_def min_def)
  have quat: "data_qvel_root p = ((vx, vy, vz), wv) \<and> data_xquat_target p = (w, x, y, z)
          \<and> (w*w + x*x - y*y - z*z \<noteq> 0 \<or> 2 * (x*y + w*z) \<noteq> 0)
          \<longrightarrow> d = (vx * (w*w + x*x - y*y - z*z) + vy * (2 * (x*y + w*z)))
              / sqrt ((w*w + x*x - y*y - z*z)\<^sup>2 + (2 * (x*y + w*z))\<^sup>2)"
  proof (intro impI, elim conjE)
    assume v: "data_qvel_root p = ((vx, vy, vz), wv)"
      and q: "data_xquat_target p = (w, x, y, z)"
      and nz: "w*w + x*x - y*y - z*z \<noteq> 0 \<or> 2 * (x*y + w*z) \<noteq> 0"
    show "d = (vx * (w*w + x*x - y*y - z*z) + vy * (2 * (x*y + w*z)))
              / sqrt ((w*w + x*x - y*y - z*z)\<^sup>2 + (2 * (x*y + w*z))\<^sup>2)"
      unfolding d_def
        projection_of_state [OF v target_direction_vec2_of_quat [OF q nz]]
      by (rule projection_over_length)
  qed
  have yaw: "data_qvel_root p = ((vx, vy, vz), wv)
          \<and> data_xquat_target p = (cos (th / 2), 0, 0, sin (th / 2))
          \<longrightarrow> target_direction_vec2 p = (cos th, sin th)
            \<and> d = vx * cos th + vy * sin th
            \<and> get_reward_dispatch self p =
                Inr (clamp (max 0 (vx * cos th + vy * sin th) / 0.3) 0 1)"
  proof (intro impI, elim conjE)
    assume v: "data_qvel_root p = ((vx, vy, vz), wv)"
      and q: "data_xquat_target p = (cos (th / 2), 0, 0, sin (th / 2))"
    have h: "target_direction_vec2 p = (cos th, sin th)"
      by (rule target_direction_vec2_yaw [OF q])
    have dd: "d = vx * cos th + vy * sin th"
      unfolding d_def by (rule projection_of_state [OF v h])
    show "target_direction_vec2 p = (cos th, sin th)
            \<and> d = vx * cos th + vy * sin th
            \<and> get_reward_dispatch self p =
                Inr (clamp (max 0 (vx * cos th + vy * sin th) / 0.3) 0 1)"
      using h dd main by simp
  qed
  show ?thesis
    unfolding d_def [symmetric]
    by (intro conjI main neg big mid quat yaw)
qed

theorem move_in_direction_reward_witness:
  "task (jitterbug_of ''move_in_direction'' (sconst 0)) = ''move_in_direction''
   \<and> get_reward_dispatch (jitterbug_of ''move_in_direction'' (sconst 0))
        (physics_rest\<lparr>data_qvel_root := ((1, 0, 0), (0, 0, 0)),
                      data_xquat_target := (cos (pi / 2 / 2), 0, 0, sin (pi / 2 / 2))\<rparr>) = Inr 0
   \<and> get_reward_dispatch (jitterbug_of ''move_in_direction'' (sconst 0))
        (physics_rest\<lparr>data_qvel_root := ((0, 1, 0), (0, 0, 0)),
                      data_xquat_target := (cos (pi / 2 / 2), 0, 0, sin (pi / 2 / 2))\<rparr>) = Inr 1
   \<and> get_reward_dispatch (jitterbug_of ''move_in_direction'' (sconst 0))
        (physics_rest\<lparr>data_qvel_root := ((7, 3 / 20, 0), (0, 0, 0)),
                      data_xquat_target := (cos (pi / 2 / 2), 0, 0, sin (pi / 2 / 2))\<rparr>)
        = Inr (1 / 2)
   \<and> target_direction_vec2
        (physics_rest\<lparr>data_qvel_root := ((1, 0, 0), (0, 0, 0)),
                      data_xquat_target := (cos (pi / 2 / 2), 0, 0, sin (pi / 2 / 2))\<rparr>) = (0, 1)
   \<and> get_reward_dispatch (jitterbug_of ''move_in_direction'' (sconst 0))
        (physics_rest\<lparr>data_qvel_root := ((0, 1 / 4, 0), (0, 0, 0)),
                      data_xquat_target := (3 / 5, 0, 0, 4 / 5)\<rparr>) = Inr (4 / 5)
   \<and> get_reward_dispatch (jitterbug_of ''move_in_direction'' (sconst 0))
        (physics_rest\<lparr>data_qvel_root := ((1, 0, 0), (0, 0, 0)),
                      data_xquat_target := (3 / 5, 0, 0, 4 / 5)\<rparr>) = Inr 0"
proof -
  define self where "self = jitterbug_of ''move_in_direction'' (sconst 0)"
  define north where "north = (cos (pi / 2 / 2), 0 :: real, 0 :: real, sin (pi / 2 / 2))"
  define quat where "quat = (3 / 5 :: real, 0 :: real, 0 :: real, 4 / 5 :: real)"
  define st where "st v q = physics_rest\<lparr>data_qvel_root := (v, (0, 0, 0)), data_xquat_target := q\<rparr>"
    for v :: vec3 and q :: "real \<times> real \<times> real \<times> real"
  have t: "task self = ''move_in_direction''"
    by (simp add: self_def jitterbug_of_def)
  have f: "data_qvel_root (st v q) = (v, (0, 0, 0))" "data_xquat_target (st v q) = q" for v q
    by (simp_all add: st_def)
  have fn: "data_xquat_target (st v north) = (cos (pi / 2 / 2), 0, 0, sin (pi / 2 / 2))" for v
    by (simp add: f north_def)
  have fq: "data_xquat_target (st v quat) = (3 / 5, 0, 0, 4 / 5)" for v
    by (simp add: f quat_def)
  have nz: "(3 / 5) * (3 / 5) + 0 * 0 - 0 * 0 - (4 / 5) * (4 / 5) \<noteq> (0 :: real)
      \<or> 2 * (0 * 0 + (3 / 5) * (4 / 5)) \<noteq> (0 :: real)"
    by simp
  have len: "sqrt (((3 / 5) * (3 / 5) + 0 * 0 - 0 * 0 - (4 / 5) * (4 / 5))\<^sup>2
                 + (2 * (0 * 0 + (3 / 5) * (4 / 5)))\<^sup>2) = (1 :: real)"
    by (simp add: power2_eq_square)
  note yaw6 = conjunct2 [THEN conjunct2, THEN conjunct2, THEN conjunct2, THEN conjunct2]
  note quat5 = conjunct2 [THEN conjunct2, THEN conjunct2, THEN conjunct2, THEN conjunct1]
  note a = move_in_direction_reward [OF t, of "st (1, 0, 0) north" 1 0 0 "(0, 0, 0)" 0 0 0 0 "pi / 2"]
  note b = move_in_direction_reward [OF t, of "st (0, 1, 0) north" 0 1 0 "(0, 0, 0)" 0 0 0 0 "pi / 2"]
  note c = move_in_direction_reward [OF t, of "st (7, 3 / 20, 0) north" 7 "3 / 20" 0 "(0, 0, 0)"
      0 0 0 0 "pi / 2"]
  note d = move_in_direction_reward [OF t, of "st (0, 1 / 4, 0) quat" 0 "1 / 4" 0 "(0, 0, 0)"
      "3 / 5" 0 0 "4 / 5" 0]
  note e = move_in_direction_reward [OF t, of "st (1, 0, 0) quat" 1 0 0 "(0, 0, 0)"
      "3 / 5" 0 0 "4 / 5" 0]
  have ya: "target_direction_vec2 (st (1, 0, 0) north) = (cos (pi / 2), sin (pi / 2))
       \<and> matmul2 (vec3_xy (jitterbug_velocity_xyz (st (1, 0, 0) north)))
             (target_direction_vec2 (st (1, 0, 0) north)) = 1 * cos (pi / 2) + 0 * sin (pi / 2)
       \<and> get_reward_dispatch self (st (1, 0, 0) north) =
             Inr (clamp (max 0 (1 * cos (pi / 2) + 0 * sin (pi / 2)) / 0.3) 0 1)"
    by (rule a [THEN yaw6, THEN mp]) (intro conjI f fn)
  have ra: "get_reward_dispatch self (st (1, 0, 0) north) = Inr 0"
    using ya by (simp add: clamp_def)
  have ha: "target_direction_vec2 (st (1, 0, 0) north) = (0, 1)"
    using ya by simp
  have yb: "target_direction_vec2 (st (0, 1, 0) north) = (cos (pi / 2), sin (pi / 2))
       \<and> matmul2 (vec3_xy (jitterbug_velocity_xyz (st (0, 1, 0) north)))
             (target_direction_vec2 (st (0, 1, 0) north)) = 0 * cos (pi / 2) + 1 * sin (pi / 2)
       \<and> get_reward_dispatch self (st (0, 1, 0) north) =
             Inr (clamp (max 0 (0 * cos (pi / 2) + 1 * sin (pi / 2)) / 0.3) 0 1)"
    by (rule b [THEN yaw6, THEN mp]) (intro conjI f fn)
  have rb: "get_reward_dispatch self (st (0, 1, 0) north) = Inr 1"
    using yb by (simp add: clamp_def)
  have yc: "target_direction_vec2 (st (7, 3 / 20, 0) north) = (cos (pi / 2), sin (pi / 2))
       \<and> matmul2 (vec3_xy (jitterbug_velocity_xyz (st (7, 3 / 20, 0) north)))
             (target_direction_vec2 (st (7, 3 / 20, 0) north))
           = 7 * cos (pi / 2) + 3 / 20 * sin (pi / 2)
       \<and> get_reward_dispatch self (st (7, 3 / 20, 0) north) =
             Inr (clamp (max 0 (7 * cos (pi / 2) + 3 / 20 * sin (pi / 2)) / 0.3) 0 1)"
    by (rule c [THEN yaw6, THEN mp]) (intro conjI f fn)
  have rc: "get_reward_dispatch self (st (7, 3 / 20, 0) north) = Inr (1 / 2)"
    using yc by (simp add: clamp_def)
  have "matmul2 (vec3_xy (jitterbug_velocity_xyz (st (0, 1 / 4, 0) quat)))
        (target_direction_vec2 (st (0, 1 / 4, 0) quat)) =
        (0 * ((3 / 5) * (3 / 5) + 0 * 0 - 0 * 0 - (4 / 5) * (4 / 5))
          + 1 / 4 * (2 * (0 * 0 + (3 / 5) * (4 / 5))))
        / sqrt (((3 / 5) * (3 / 5) + 0 * 0 - 0 * 0 - (4 / 5) * (4 / 5))\<^sup>2
                 + (2 * (0 * 0 + (3 / 5) * (4 / 5)))\<^sup>2)"
    by (rule d [THEN quat5, THEN mp]) (intro conjI f fq nz)
  then have pd: "matmul2 (vec3_xy (jitterbug_velocity_xyz (st (0, 1 / 4, 0) quat)))
        (target_direction_vec2 (st (0, 1 / 4, 0) quat)) = 6 / 25"
    unfolding len by simp
  have rd: "get_reward_dispatch self (st (0, 1 / 4, 0) quat) = Inr (4 / 5)"
    using d [THEN conjunct1] unfolding pd by (simp add: clamp_def)
  have "matmul2 (vec3_xy (jitterbug_velocity_xyz (st (1, 0, 0) quat)))
        (target_direction_vec2 (st (1, 0, 0) quat)) =
        (1 * ((3 / 5) * (3 / 5) + 0 * 0 - 0 * 0 - (4 / 5) * (4 / 5))
          + 0 * (2 * (0 * 0 + (3 / 5) * (4 / 5))))
        / sqrt (((3 / 5) * (3 / 5) + 0 * 0 - 0 * 0 - (4 / 5) * (4 / 5))\<^sup>2
                 + (2 * (0 * 0 + (3 / 5) * (4 / 5)))\<^sup>2)"
    by (rule e [THEN quat5, THEN mp]) (intro conjI f fq nz)
  then have pe: "matmul2 (vec3_xy (jitterbug_velocity_xyz (st (1, 0, 0) quat)))
        (target_direction_vec2 (st (1, 0, 0) quat)) = - (7 / 25)"
    unfolding len by simp
  have re: "get_reward_dispatch self (st (1, 0, 0) quat) = Inr 0"
    using e [THEN conjunct1] unfolding pe by (simp add: clamp_def)
  note facts = t ra rb rc ha rd re
  show ?thesis
    by (intro conjI facts [unfolded self_def st_def north_def quat_def])
qed

subsection \<open>The reward\<close>

lemma upright_reward_cases:
  "upright_reward p =
     (if data_xmat_jitterbug_zz p < 0 then 0
      else if 1 < data_xmat_jitterbug_zz p then 1
      else data_xmat_jitterbug_zz p)"
  by (simp add: upright_reward_def min_def max_def)

lemma upright_reward_range: "0 \<le> upright_reward p \<and> upright_reward p \<le> 1"
  by (simp add: upright_reward_def)

lemma get_reward_move_in_direction:
  "get_reward (self\<lparr>task := ''move_in_direction''\<rparr>) p =
     Inr (clamp (max 0 (matmul2 (vec3_xy (jitterbug_velocity_xyz p)) (target_direction_vec2 p))
                 / 0.3) 0 1
          * upright_reward p)"
proof -
  have "clamp (max 0 (matmul2 (vec3_xy (jitterbug_velocity_xyz p)) (target_direction_vec2 p)) / 0.3) 0 1
      = min (max 0 (matmul2 (vec3_xy (jitterbug_velocity_xyz p)) (target_direction_vec2 p)) / 0.3) 1"
    by (rule clamp_unit) simp
  then show ?thesis
    by (simp add: get_reward_def move_in_direction_dispatch)
qed

text \<open>
  Claim C2. For each of the five variants \<^verbatim>\<open>get_reward\<close> returns the base reward of the variant
  times the uprightness factor, the multiplication being the last step after the dispatch.
  The base rewards are: \<open>1 - positionReward\<close> for \<^verbatim>\<open>move_from_origin\<close>, the face-direction
  reward for \<^verbatim>\<open>face_direction\<close>, the move-in-direction reward for \<^verbatim>\<open>move_in_direction\<close>, the
  position reward for \<^verbatim>\<open>move_to_position\<close>, and the product of the position and the
  face-direction reward for \<^verbatim>\<open>move_to_pose\<close>. The uprightness factor is the ZZ entry of the
  rotation matrix of the body clamped into \<open>[0, 1]\<close>: a raw value of 1.5 gives 1, a raw value of
  -0.5 gives 0.
\<close>

theorem get_reward_upright_gated:
  "get_reward (self\<lparr>task := ''move_from_origin''\<rparr>) p =
       Inr ((1 - move_to_position_reward p) * upright_reward p)
   \<and> get_reward (self\<lparr>task := ''face_direction''\<rparr>) p =
       Inr (face_direction_reward p * upright_reward p)
   \<and> get_reward (self\<lparr>task := ''move_in_direction''\<rparr>) p =
       Inr (clamp (max 0 (matmul2 (vec3_xy (jitterbug_velocity_xyz p)) (target_direction_vec2 p))
                   / 0.3) 0 1
            * upright_reward p)
   \<and> get_reward (self\<lparr>task := ''move_to_position''\<rparr>) p =
       Inr (move_to_position_reward p * upright_reward p)
   \<and> get_reward (self\<lparr>task := ''move_to_pose''\<rparr>) p =
       Inr (move_to_position_reward p * face_direction_reward p * upright_reward p)
   \<and> upright_reward p =
       (if data_xmat_jitterbug_zz p < 0 then 0
        else if 1 < data_xmat_jitterbug_zz p then 1
        else data_xmat_jitterbug_zz p)
   \<and> (0 \<le> upright_reward p \<and> upright_reward p \<le> 1)
   \<and> upright_reward (p\<lparr>data_xmat_jitterbug_zz := 1.5\<rparr>) = 1
   \<and> upright_reward (p\<lparr>data_xmat_jitterbug_zz := - 0.5\<rparr>) = 0"
proof -
  have a: "get_reward (self\<lparr>task := ''move_from_origin''\<rparr>) p =
       Inr ((1 - move_to_position_reward p) * upright_reward p)"
    by (simp add: get_reward_def get_reward_dispatch_def)
  have b: "get_reward (self\<lparr>task := ''face_direction''\<rparr>) p =
       Inr (face_direction_reward p * upright_reward p)"
    by (simp add: get_reward_def get_reward_dispatch_def)
  have c: "get_reward (self\<lparr>task := ''move_to_position''\<rparr>) p =
       Inr (move_to_position_reward p * upright_reward p)"
    by (simp add: get_reward_def get_reward_dispatch_def)
  have d: "get_reward (self\<lparr>task := ''move_to_pose''\<rparr>) p =
       Inr (move_to_position_reward p * face_direction_reward p * upright_reward p)"
    by (simp add: get_reward_def get_reward_dispatch_def)
  have e: "upright_reward (p\<lparr>data_xmat_jitterbug_zz := 1.5\<rparr>) = 1"
    by (simp add: upright_reward_def)
  have f: "upright_reward (p\<lparr>data_xmat_jitterbug_zz := - 0.5\<rparr>) = 0"
    by (simp add: upright_reward_def)
  show ?thesis
    by (intro conjI a b c d e f get_reward_move_in_direction upright_reward_cases
        upright_reward_range [THEN conjunct1] upright_reward_range [THEN conjunct2])
qed

subsection \<open>Observations\<close>

lemma base_observation:
  "setitem (setitem (setitem (setitem [] ''position'' a) ''velocity'' b) ''motor_position'' c)
     ''motor_velocity'' d
   = [(''position'', a), (''velocity'', b), (''motor_position'', c), (''motor_velocity'', d)]"
  by simp

text \<open>
  Claim C8. For each of the five variants and every state the observation holds the four base
  fields \<^verbatim>\<open>position\<close>, \<^verbatim>\<open>velocity\<close>, \<^verbatim>\<open>motor_position\<close>, \<^verbatim>\<open>motor_velocity\<close> first, in this order,
  then the fields of the variant in a fixed order: \<^verbatim>\<open>target_direction\<close> for exactly
  \<^verbatim>\<open>face_direction\<close>, \<^verbatim>\<open>move_in_direction\<close> and \<^verbatim>\<open>move_to_pose\<close>, \<^verbatim>\<open>target_position\<close> for exactly
  \<^verbatim>\<open>move_to_position\<close> and \<^verbatim>\<open>move_to_pose\<close>. So \<^verbatim>\<open>move_to_pose\<close> yields exactly six fields and
  \<^verbatim>\<open>move_from_origin\<close> exactly the four base fields.
\<close>

theorem get_observation_fields:
  "get_observation (self\<lparr>task := ''move_from_origin''\<rparr>) p =
     Inr [(''position'', vec3_list (fst (jitterbug_position p)) @ quat_list (snd (jitterbug_position p))),
          (''velocity'', vec3_list (fst (jitterbug_velocity p)) @ vec3_list (snd (jitterbug_velocity p))),
          (''motor_position'', motor_position p),
          (''motor_velocity'', motor_velocity p)]
   \<and> get_observation (self\<lparr>task := ''face_direction''\<rparr>) p =
     Inr [(''position'', vec3_list (fst (jitterbug_position p)) @ quat_list (snd (jitterbug_position p))),
          (''velocity'', vec3_list (fst (jitterbug_velocity p)) @ vec3_list (snd (jitterbug_velocity p))),
          (''motor_position'', motor_position p),
          (''motor_velocity'', motor_velocity p),
          (''target_direction'', vec2_list (vec2_direction_to_target p))]
   \<and> get_observation (self\<lparr>task := ''move_in_direction''\<rparr>) p =
     Inr [(''position'', vec3_list (fst (jitterbug_position p)) @ quat_list (snd (jitterbug_position p))),
          (''velocity'', vec3_list (fst (jitterbug_velocity p)) @ vec3_list (snd (jitterbug_velocity p))),
          (''motor_position'', motor_position p),
          (''motor_velocity'', motor_velocity p),
          (''target_direction'', vec2_list (vec2_direction_to_target p))]
   \<and> get_observation (self\<lparr>task := ''move_to_position''\<rparr>) p =
     Inr [(''position'', vec3_list (fst (jitterbug_position p)) @ quat_list (snd (jitterbug_position p))),
          (''velocity'', vec3_list (fst (jitterbug_velocity p)) @ vec3_list (snd (jitterbug_velocity p))),
          (''motor_position'', motor_position p),
          (''motor_velocity'', motor_velocity p),
          (''target_position'', vec3_list (vec3_jitterbug_to_target p))]
   \<and> get_observation (self\<lparr>task := ''move_to_pose''\<rparr>) p =
     Inr [(''position'', vec3_list (fst (jitterbug_position p)) @ quat_list (snd (jitterbug_position p))),
          (''velocity'', vec3_list (fst (jitterbug_velocity p)) @ vec3_list (snd (jitterbug_velocity p))),
          (''motor_position'', motor_position p),
          (''motor_velocity'', motor_velocity p),
          (''target_position'', vec3_list (vec3_jitterbug_to_target p)),
          (''target_direction'', vec2_list (vec2_direction_to_target p))]
   \<and> map_sum id (map fst) (get_observation (self\<lparr>task := ''move_from_origin''\<rparr>) p) =
     Inr [''position'', ''velocity'', ''motor_position'', ''motor_velocity'']
   \<and> map_sum id (map fst) (get_observation (self\<lparr>task := ''face_direction''\<rparr>) p) =
     Inr [''position'', ''velocity'', ''motor_position'', ''motor_velocity'', ''target_direction'']
   \<and> map_sum id (map fst) (get_observation (self\<lparr>task := ''move_in_direction''\<rparr>) p) =
     Inr [''position'', ''velocity'', ''motor_position'', ''motor_velocity'', ''target_direction'']
   \<and> map_sum id (map fst) (get_observation (self\<lparr>task := ''move_to_position''\<rparr>) p) =
     Inr [''position'', ''velocity'', ''motor_position'', ''motor_velocity'', ''target_position'']
   \<and> map_sum id (map fst) (get_observation (self\<lparr>task := ''move_to_pose''\<rparr>) p) =
     Inr [''position'', ''velocity'', ''motor_position'', ''motor_velocity'', ''target_position'',
          ''target_direction'']"
proof -
  have a: "get_observation (self\<lparr>task := ''move_from_origin''\<rparr>) p =
     Inr [(''position'', vec3_list (fst (jitterbug_position p)) @ quat_list (snd (jitterbug_position p))),
          (''velocity'', vec3_list (fst (jitterbug_velocity p)) @ vec3_list (snd (jitterbug_velocity p))),
          (''motor_position'', motor_position p),
          (''motor_velocity'', motor_velocity p)]"
    unfolding get_observation_def Let_def base_observation by simp
  have b: "get_observation (self\<lparr>task := ''face_direction''\<rparr>) p =
     Inr [(''position'', vec3_list (fst (jitterbug_position p)) @ quat_list (snd (jitterbug_position p))),
          (''velocity'', vec3_list (fst (jitterbug_velocity p)) @ vec3_list (snd (jitterbug_velocity p))),
          (''motor_position'', motor_position p),
          (''motor_velocity'', motor_velocity p),
          (''target_direction'', vec2_list (vec2_direction_to_target p))]"
    unfolding get_observation_def Let_def base_observation by simp
  have c: "get_observation (self\<lparr>task := ''move_in_direction''\<rparr>) p =
     Inr [(''position'', vec3_list (fst (jitterbug_position p)) @ quat_list (snd (jitterbug_position p))),
          (''velocity'', vec3_list (fst (jitterbug_velocity p)) @ vec3_list (snd (jitterbug_velocity p))),
          (''motor_position'', motor_position p),
          (''motor_velocity'', motor_velocity p),
          (''target_direction'', vec2_list (vec2_direction_to_target p))]"
    unfolding get_observation_def Let_def base_observation by simp
  have d: "get_observation (self\<lparr>task := ''move_to_position''\<rparr>) p =
     Inr [(''position'', vec3_list (fst (jitterbug_position p)) @ quat_list (snd (jitterbug_position p))),
          (''velocity'', vec3_list (fst (jitterbug_velocity p)) @ vec3_list (snd (jitterbug_velocity p))),
          (''motor_position'', motor_position p),
          (''motor_velocity'', motor_velocity p),
          (''target_position'', vec3_list (vec3_jitterbug_to_target p))]"
    unfolding get_observation_def Let_def base_observation by simp
  have e: "get_observation (self\<lparr>task := ''move_to_pose''\<rparr>) p =
     Inr [(''position'', vec3_list (fst (jitterbug_position p)) @ quat_list (snd (jitterbug_position p))),
          (''velocity'', vec3_list (fst (jitterbug_velocity p)) @ vec3_list (snd (jitterbug_velocity p))),
          (''motor_position'', motor_position p),
          (''motor_velocity'', motor_velocity p),
          (''target_position'', vec3_list (vec3_jitterbug_to_target p)),
          (''target_direction'', vec2_list (vec2_direction_to_target p))]"
    unfolding get_observation_def Let_def base_observation by simp
  show ?thesis
    unfolding a b c d e by simp
qed

subsection \<open>Construction\<close>

lemma reflected_task_names:
  "filter (\<lambda>n. n \<in> set SUITE_tasks) module_functions =
     [''face_direction'', ''move_from_origin'', ''move_in_direction'', ''move_to_pose'',
      ''move_to_position'']"
  by (simp add: SUITE_tasks_def module_functions_def)

text \<open>
  Claim C9. Constructing a task succeeds exactly for the five variant names; for any other
  string, such as \<^verbatim>\<open>spin_forever\<close>, construction fails at once, with the error whose message is
  \<^verbatim>\<open>Invalid task ...\<close> (raised by the \<^verbatim>\<open>assert\<close> of the constructor), and there is no task
  object. The constructor takes no simulation state, so none is read or written.
\<close>

theorem Jitterbug_init_validates_task:
  "Jitterbug_init rnd tsk =
     (if tsk \<in> {''move_from_origin'', ''face_direction'', ''move_in_direction'',
                 ''move_to_position'', ''move_to_pose''}
      then Inr \<lparr>task_names = [''face_direction'', ''move_from_origin'', ''move_in_direction'',
                               ''move_to_pose'', ''move_to_position''],
                task = tsk, random = rnd\<rparr>
      else Inl (AssertionError tsk [''face_direction'', ''move_from_origin'', ''move_in_direction'',
                                    ''move_to_pose'', ''move_to_position'']))
   \<and> isl (Jitterbug_init rnd tsk) =
       (tsk \<notin> {''move_from_origin'', ''face_direction'', ''move_in_direction'',
                 ''move_to_position'', ''move_to_pose''})
   \<and> Jitterbug_init rnd ''spin_forever'' =
       Inl (AssertionError ''spin_forever'' [''face_direction'', ''move_from_origin'',
              ''move_in_direction'', ''move_to_pose'', ''move_to_position''])"
proof -
  have e: "Jitterbug_init rnd t =
     (if t \<in> {''move_from_origin'', ''face_direction'', ''move_in_direction'',
                 ''move_to_position'', ''move_to_pose''}
      then Inr \<lparr>task_names = [''face_direction'', ''move_from_origin'', ''move_in_direction'',
                               ''move_to_pose'', ''move_to_position''],
                task = t, random = rnd\<rparr>
      else Inl (AssertionError t [''face_direction'', ''move_from_origin'', ''move_in_direction'',
                                    ''move_to_pose'', ''move_to_position'']))" for t
    unfolding Jitterbug_init_def Let_def reflected_task_names by auto
  have s: "''spin_forever'' \<notin> {''move_from_origin'', ''face_direction'', ''move_in_direction'',
                 ''move_to_position'', ''move_to_pose''}"
    by simp
  show ?thesis
    unfolding e using s by simp
qed

subsection \<open>Episode initialisation\<close>

lemma uniform_range:
  assumes "0 \<le> shd g" "shd g < 1" "low < high"
  shows "low \<le> fst (uniform low high g) \<and> fst (uniform low high g) < high"
proof -
  have a: "0 \<le> (high - low) * shd g" using assms by simp
  have "(high - low) * shd g < (high - low) * 1"
    using assms by (intro mult_strict_left_mono) simp_all
  with a show ?thesis by (simp add: uniform_def)
qed

lemma initialize_episode_result:
  assumes "task self \<in> set SUITE_tasks"
  shows "\<exists>p'. initialize_episode self p np_random =
            Inr (self\<lparr>random := stl (stl (random self))\<rparr>, p', stl np_random)"
  using assms
  by (auto simp add: initialize_episode_def uniform_def SUITE_tasks_def Let_def)

lemma initialize_episode_position:
  assumes "task self = ''move_to_position'' \<or> task self = ''move_to_pose''"
  shows "map_sum id (\<lambda>r. model_body_pos_target (fst (snd r))) (initialize_episode self p np_random) =
      Inr (set_pos_y ((0.05 + (0.3 - 0.05) * shd (stl (random self)))
                        * cos (0 + (2 * pi - 0) * shd (random self)))
            (set_pos_x ((0.05 + (0.3 - 0.05) * shd (stl (random self)))
                          * sin (0 + (2 * pi - 0) * shd (random self)))
              (model_body_pos_target p)))"
  using assms
  by (auto simp add: initialize_episode_def uniform_def Let_def)

text \<open>
  Claim C10. For each of the five variants a call of \<^verbatim>\<open>initialize_episode\<close> takes exactly two
  samples from the generator of the task: first the angle, uniform on \<open>[0, 2\<pi>)\<close>, then the
  radius, uniform on \<open>[0.05, 0.3)\<close>, also in the variants that use neither. So the generator
  of the task after the call is its state two samples on, the same function of the state
  before for all five variants. The two variants that place the target use the first
  sample as the angle and the second as the radius.
\<close>

theorem initialize_episode_two_draws:
  assumes "task self \<in> set SUITE_tasks"
  shows "map_sum id (\<lambda>r. random (fst r)) (initialize_episode self p np_random) =
        Inr (stl (stl (random self)))
     \<and> map_sum id (\<lambda>r. random (fst r)) (initialize_episode self p np_random) =
        Inr (snd (uniform 0.05 0.3 (snd (uniform 0 (2 * pi) (random self)))))
     \<and> (task self = ''move_to_position'' \<or> task self = ''move_to_pose'' \<longrightarrow>
          map_sum id (\<lambda>r. model_body_pos_target (fst (snd r)))
            (initialize_episode self p np_random) =
          Inr (set_pos_y (fst (uniform 0.05 0.3 (stl (random self)))
                          * cos (fst (uniform 0 (2 * pi) (random self))))
                (set_pos_x (fst (uniform 0.05 0.3 (stl (random self)))
                            * sin (fst (uniform 0 (2 * pi) (random self))))
                  (model_body_pos_target p))))
     \<and> (0 \<le> shd (random self) \<and> shd (random self) < 1 \<longrightarrow>
          0 \<le> fst (uniform 0 (2 * pi) (random self))
          \<and> fst (uniform 0 (2 * pi) (random self)) < 2 * pi)
     \<and> (0 \<le> shd (stl (random self)) \<and> shd (stl (random self)) < 1 \<longrightarrow>
          0.05 \<le> fst (uniform 0.05 0.3 (stl (random self)))
          \<and> fst (uniform 0.05 0.3 (stl (random self))) < 0.3)"
proof -
  obtain p' where r: "initialize_episode self p np_random =
            Inr (self\<lparr>random := stl (stl (random self))\<rparr>, p', stl np_random)"
    using initialize_episode_result [OF assms] by blast
  have a: "map_sum id (\<lambda>r. random (fst r)) (initialize_episode self p np_random) =
        Inr (stl (stl (random self)))"
    unfolding r by simp
  have b: "snd (uniform 0.05 0.3 (snd (uniform 0 (2 * pi) (random self)))) = stl (stl (random self))"
    by (simp add: uniform_def)
  have c: "task self = ''move_to_position'' \<or> task self = ''move_to_pose'' \<longrightarrow>
          map_sum id (\<lambda>r. model_body_pos_target (fst (snd r)))
            (initialize_episode self p np_random) =
          Inr (set_pos_y (fst (uniform 0.05 0.3 (stl (random self)))
                          * cos (fst (uniform 0 (2 * pi) (random self))))
                (set_pos_x (fst (uniform 0.05 0.3 (stl (random self)))
                            * sin (fst (uniform 0 (2 * pi) (random self))))
                  (model_body_pos_target p)))"
    using initialize_episode_position [of self p np_random] by (simp add: uniform_def)
  have d: "0 \<le> shd (random self) \<and> shd (random self) < 1 \<longrightarrow>
          0 \<le> fst (uniform 0 (2 * pi) (random self))
          \<and> fst (uniform 0 (2 * pi) (random self)) < 2 * pi"
    using uniform_range [of "random self" 0 "2 * pi"] by simp
  have e: "0 \<le> shd (stl (random self)) \<and> shd (stl (random self)) < 1 \<longrightarrow>
          0.05 \<le> fst (uniform 0.05 0.3 (stl (random self)))
          \<and> fst (uniform 0.05 0.3 (stl (random self))) < 0.3"
    using uniform_range [of "stl (random self)" "0.05" "0.3"] by simp
  show ?thesis
    unfolding b by (intro conjI a c d e)
qed

theorem initialize_episode_two_draws_witness:
  "task (jitterbug_of ''move_to_pose'' (1 / 4 ## 1 / 2 ## sconst 0)) \<in> set SUITE_tasks
   \<and> task (jitterbug_of ''move_from_origin'' (1 / 4 ## 1 / 2 ## sconst 0)) \<in> set SUITE_tasks
   \<and> map_sum id (\<lambda>r. random (fst r))
        (initialize_episode (jitterbug_of ''move_to_pose'' (1 / 4 ## 1 / 2 ## sconst 0))
           physics_rest (sconst 0)) = Inr (sconst 0)
   \<and> map_sum id (\<lambda>r. random (fst r))
        (initialize_episode (jitterbug_of ''move_from_origin'' (1 / 4 ## 1 / 2 ## sconst 0))
           physics_rest (sconst 0)) = Inr (sconst 0)
   \<and> map_sum id (\<lambda>r. model_body_pos_target (fst (snd r)))
        (initialize_episode (jitterbug_of ''move_to_pose'' (1 / 4 ## 1 / 2 ## sconst 0))
           physics_rest (sconst 0)) = Inr (7 / 40, 0, 0)
   \<and> fst (uniform 0 (2 * pi) (1 / 4 ## 1 / 2 ## sconst 0)) = pi / 2
   \<and> fst (uniform 0.05 0.3 (1 / 2 ## sconst 0)) = 7 / 40"
proof -
  have t1: "task (jitterbug_of ''move_to_pose'' (1 / 4 ## 1 / 2 ## sconst 0)) \<in> set SUITE_tasks"
    by (simp add: jitterbug_of_def SUITE_tasks_def)
  have t2: "task (jitterbug_of ''move_from_origin'' (1 / 4 ## 1 / 2 ## sconst 0)) \<in> set SUITE_tasks"
    by (simp add: jitterbug_of_def SUITE_tasks_def)
  have f: "task (jitterbug_of t g) = t" "random (jitterbug_of t g) = g" for t g
    by (simp_all add: jitterbug_of_def)
  have m: "model_body_pos_target physics_rest = (0, 0, 0)"
    by (simp add: physics_rest_def)
  show ?thesis
    using initialize_episode_two_draws [OF t1, of physics_rest "sconst 0"]
      initialize_episode_two_draws [OF t2, of physics_rest "sconst 0"]
    unfolding f
    by (simp add: SUITE_tasks_def uniform_def m set_pos_x_def set_pos_y_def)
qed

lemma initialize_episode_face_direction_quat:
  assumes "task self = ''face_direction''"
  shows "map_sum id (\<lambda>r. model_body_quat_target (fst (snd r)))
           (initialize_episode self p np_random) =
         Inr (cos (2 * pi * shd np_random / 2), 0, 0, sin (2 * pi * shd np_random / 2))"
  using assms by (simp add: initialize_episode_def uniform_def Let_def)

text \<open>
  Claim C1. The claim is that every draw of \<^verbatim>\<open>initialize_episode\<close> comes from the generator of
  the task, in the order angle, radius, yaw, so that for \<^verbatim>\<open>face_direction\<close> two calls with
  identically seeded task generators write the same target yaw. The angle and the radius
  are drawn from \<^verbatim>\<open>self.random\<close>, but the yaw is drawn from the process-wide \<^verbatim>\<open>np.random\<close>: with
  the same task generator and two states of the process-wide generator the code writes the
  target orientations \<open>(1, 0, 0, 0)\<close> (yaw 0) and \<open>(0, 0, 0, 1)\<close> (yaw \<open>\<pi>\<close>).
\<close>

theorem initialize_episode_yaw_not_from_task_rng:
  "map_sum id (\<lambda>r. model_body_quat_target (fst (snd r)))
     (initialize_episode (jitterbug_of ''face_direction'' (sconst 0)) physics_rest (sconst 0))
     = Inr (1, 0, 0, 0)
   \<and> map_sum id (\<lambda>r. model_body_quat_target (fst (snd r)))
     (initialize_episode (jitterbug_of ''face_direction'' (sconst 0)) physics_rest (sconst (1 / 2)))
     = Inr (0, 0, 0, 1)
   \<and> map_sum id (\<lambda>r. model_body_quat_target (fst (snd r)))
        (initialize_episode (jitterbug_of ''face_direction'' (sconst 0)) physics_rest (sconst 0))
      \<noteq> map_sum id (\<lambda>r. model_body_quat_target (fst (snd r)))
        (initialize_episode (jitterbug_of ''face_direction'' (sconst 0)) physics_rest
           (sconst (1 / 2)))"
proof -
  have t: "task (jitterbug_of ''face_direction'' (sconst 0)) = ''face_direction''"
    by (simp add: jitterbug_of_def)
  have a: "map_sum id (\<lambda>r. model_body_quat_target (fst (snd r)))
     (initialize_episode (jitterbug_of ''face_direction'' (sconst 0)) physics_rest (sconst 0))
     = Inr (1, 0, 0, 0)"
    unfolding initialize_episode_face_direction_quat [OF t] by simp
  have b: "map_sum id (\<lambda>r. model_body_quat_target (fst (snd r)))
     (initialize_episode (jitterbug_of ''face_direction'' (sconst 0)) physics_rest (sconst (1 / 2)))
     = Inr (0, 0, 0, 1)"
    unfolding initialize_episode_face_direction_quat [OF t] by simp
  show ?thesis unfolding a b by simp
qed

end
